theory Spec2Isabelle
  imports Complex_Main "HOL-Library.List_Lexorder" "HOL-Library.Sublist" "HOL-Library.AList"
    "HOL-Library.Multiset"
begin

section \<open>Detection rows and box lists\<close>

text \<open>
  The function \<open>run\<close> of \<open>detection.py\<close> runs three detectors over one frame and turns each
  detector's output tensor \<open>det\<close> into a Python list of boxes \<open>[x1, y1, x2, y2]\<close> and a
  parallel list of confidences.

  A row of \<open>det\<close> as the non-max suppression returns it has four real coordinates, a confidence
  and a class. Line 143 (and 213, 277) replaces the coordinates by
  \<open>scale_coords(...).round()\<close>: after it every coordinate is an integer-valued float.
  Integer-valued floats of image size, their sums and the halves of their sums are exact in
  binary floating point, so the model keeps the rounded coordinates as \<open>int\<close> and the
  midpoints as \<open>rat\<close>; \<open>int(...)\<close> of such a coordinate is the coordinate itself.
  Confidences are floats in \<open>[0, 1]\<close>; every float is a rational number.
\<close>

type_synonym box = "int list"

record raw_row =
  raw_xyxy :: "rat \<times> rat \<times> rat \<times> rat"
  raw_conf :: rat
  raw_cls :: nat

record row =
  xyxy :: box
  conf :: rat
  cls :: nat

text \<open>\<open>torch.round\<close>: to the nearest integer, a tie going to the even neighbour.\<close>

definition torch_round :: "rat \<Rightarrow> int" where
  "torch_round q =
     (let f = \<lfloor>q\<rfloor>; d = q - of_int f
      in if d < 1 / 2 then f else if 1 / 2 < d then f + 1
         else if even f then f else f + 1)"

text \<open>
  Line 143: \<open>det[:, :4] = scale_coords(im.shape[2:], det[:, :4], im0.shape).round()\<close>.
  \<open>scale_coords\<close> is a function of \<open>utils.general\<close>; it maps the four coordinates of each
  row from the network's input size to the frame, and is a parameter here.
\<close>

definition rescale_row ::
  "(rat \<times> rat \<times> rat \<times> rat \<Rightarrow> rat \<times> rat \<times> rat \<times> rat) \<Rightarrow> raw_row \<Rightarrow> row" where
  "rescale_row scale_coords r =
     (case scale_coords (raw_xyxy r) of (a, b, c, d) \<Rightarrow>
        \<lparr>xyxy = [torch_round a, torch_round b, torch_round c, torch_round d],
         conf = raw_conf r, cls = raw_cls r\<rparr>)"

definition rescale ::
  "(rat \<times> rat \<times> rat \<times> rat \<Rightarrow> rat \<times> rat \<times> rat \<times> rat) \<Rightarrow> raw_row list \<Rightarrow> row list" where
  "rescale scale_coords det = map (rescale_row scale_coords) det"

text \<open>
  Lines 151-159 (and 221-228, 285-292): \<open>for *xyxy, conf, cls in reversed(det)\<close> appends
  \<open>[float(x1), float(y1), float(x2), float(y2)]\<close> to the box list and \<open>prob\<close> to the
  confidence list, so both lists are in the reverse of the detector's emission order.
\<close>

definition boxes_of :: "row list \<Rightarrow> box list" where
  "boxes_of det = map (\<lambda>r. [xyxy r ! 0, xyxy r ! 1, xyxy r ! 2, xyxy r ! 3]) (rev det)"

definition probs_of :: "row list \<Rightarrow> rat list" where
  "probs_of det = map conf (rev det)"

text \<open>
  Lines 307-308: \<open>pred_single_solar_modules.sort()\<close> and \<open>pred_full_solar_modules.sort()\<close>.
  Python compares lists lexicographically and \<open>list.sort\<close> is stable; the result of a stable
  sort is determined by its input, and \<open>sort\<close> is that function. The fault list
  \<open>pred_fault_solar_modules\<close> is not sorted: it stays aligned with
  \<open>prob_fault_solar_modules\<close>, which is read by the same index at lines 348-349.
\<close>

definition py_sort :: "box list \<Rightarrow> box list" where
  "py_sort bs = sort bs"

section \<open>Midpoint and containment\<close>

text \<open>
  Lines 325 and 335: \<open>mid_point_x, mid_point_y = (b[0] + b[2]) / 2, (b[1] + b[3]) / 2\<close>.
\<close>

definition mid_point :: "box \<Rightarrow> rat \<times> rat" where
  "mid_point b = ((of_int (b ! 0) + of_int (b ! 2)) / 2, (of_int (b ! 1) + of_int (b ! 3)) / 2)"

text \<open>
  Lines 326 and 336: \<open>mid_point_x > p[0] and mid_point_x < p[2] and mid_point_y > p[1] and
  mid_point_y < p[3]\<close>, for the panel box \<open>p\<close>.
\<close>

definition inside :: "rat \<times> rat \<Rightarrow> box \<Rightarrow> bool" where
  "inside pt p \<longleftrightarrow>
     fst pt > of_int (p ! 0) \<and> fst pt < of_int (p ! 2) \<and>
     snd pt > of_int (p ! 1) \<and> snd pt < of_int (p ! 3)"

section \<open>The confidence label of a fault\<close>

text \<open>Python's \<open>int(x)\<close> of a float: truncation towards zero.\<close>

definition py_int :: "rat \<Rightarrow> int" where
  "py_int q = (if 0 \<le> q then \<lfloor>q\<rfloor> else \<lceil>q\<rceil>)"

definition digit :: "nat \<Rightarrow> char" where
  "digit d = ''0123456789'' ! d"

fun dec :: "nat \<Rightarrow> string" where
  "dec n = (if n < 10 then [digit n] else dec (n div 10) @ [digit (n mod 10)])"

declare dec.simps [simp del]

text \<open>
  \<open>str(n / 100)\<close> for an integer \<open>n\<close>: the quotient is the float nearest to \<open>n / 100\<close>, and
  \<open>str\<close> prints the shortest decimal that reads back as that float. For \<open>\<bar>n\<bar> < 10 ^ 15\<close> this
  is the decimal expansion of \<open>n / 100\<close> with trailing zeros removed and at least one digit
  after the point: \<open>1234 / 100\<close> prints \<open>12.34\<close>, \<open>1230 / 100\<close> prints \<open>12.3\<close> and
  \<open>5000 / 100\<close> prints \<open>50.0\<close>. A confidence in \<open>[0, 1]\<close> gives \<open>0 \<le> n \<le> 10000\<close>.
\<close>

definition str_hundredths :: "int \<Rightarrow> string" where
  "str_hundredths n =
     (let a = nat \<bar>n\<bar>; f = a mod 100
      in (if n < 0 then ''-'' else '''') @ dec (a div 100) @ ''.'' @
         (if f mod 10 = 0 then [digit (f div 10)] else [digit (f div 10), digit (f mod 10)]))"

text \<open>
  Lines 348-349: \<open>str((int(prob_fault_solar_modules[ml] * 10000)) / 100) + "%"\<close>. The
  confidence is a 32-bit (or 16-bit) float widened to a double, so its product with
  \<open>10000\<close> is exact.
\<close>

definition fault_label :: "rat \<Rightarrow> string" where
  "fault_label prob = str_hundredths (py_int (prob * 10000)) @ ''%''"

text \<open>
  The label as the specification words it: \<open>round(score * 10000) / 100\<close>, the scaled score
  rounded to the nearest integer (\<open>round\<close> of Python rounds a tie to the even neighbour),
  followed by the percent sign.
\<close>

definition spec_label :: "rat \<Rightarrow> string" where
  "spec_label score = str_hundredths (torch_round (score * 10000)) @ ''%''"

section \<open>Rasters, arrays and drawing\<close>

text \<open>
  An image array is the raster it was read or copied from together with the drawing calls
  made on it since, in order: its pixels are a function of the two. Arrays are mutable and
  Python names are references, so the arrays of one frame live in a store; an address is a
  position in it. \<open>cv2.imread\<close> and \<open>.copy()\<close> make a new array, a drawing call changes
  the array at one address.
\<close>

datatype raster = Raster nat

type_synonym colour = "nat \<times> nat \<times> nat"

text \<open>
  \<open>cv2.rectangle(img, pt1, pt2, color, thickness)\<close>, a thickness of \<open>-1\<close> filling the box;
  \<open>cv2.putText(img, text, org, FONT_HERSHEY_SIMPLEX, 1, color, thickness, LINE_AA)\<close>, the font
  and its scale being the same in every call; and the box with label that the annotator draws.
\<close>

datatype draw_op =
    Rectangle "int \<times> int" "int \<times> int" colour int
  | PutText string "int \<times> int" colour int
  | BoxLabel box rat nat

record image =
  base :: raster
  ops :: "draw_op list"

type_synonym store = "image list"

definition new_array :: "image \<Rightarrow> store \<Rightarrow> nat \<times> store" where
  "new_array img s = (length s, s @ [img])"

definition copy :: "nat \<Rightarrow> store \<Rightarrow> nat \<times> store" where
  "copy a s = new_array (s ! a) s"

definition draw :: "nat \<Rightarrow> draw_op \<Rightarrow> store \<Rightarrow> store" where
  "draw a d s = s[a := (s ! a)\<lparr>ops := ops (s ! a) @ [d]\<rparr>]"

text \<open>\<open>(int(b[0]), int(b[1]))\<close> and \<open>(int(b[2]), int(b[3]))\<close>.\<close>

definition corner1 :: "box \<Rightarrow> int \<times> int" where
  "corner1 b = (b ! 0, b ! 1)"

definition corner2 :: "box \<Rightarrow> int \<times> int" where
  "corner2 b = (b ! 2, b ! 3)"

text \<open>
  Modelled from the spec: the class \<open>Annotator\<close> of \<open>utils.plots\<close> is not under src/. The
  specification's Renderer "draws a box + label onto a raster image": \<open>box_label\<close> draws on the
  array the annotator was built around, and \<open>result()\<close> returns that array. The call of
  lines 168-170 passes the box, the label \<open>f' {conf:.2f}'\<close> and the colour of class \<open>c\<close>.
\<close>

definition box_label :: "nat \<Rightarrow> row \<Rightarrow> store \<Rightarrow> store" where
  "box_label a r s = draw a (BoxLabel (xyxy r) (conf r) (cls r)) s"

section \<open>Files of the run directory\<close>

text \<open>
  \<open>save_dir\<close> holds the annotated images at its top level and the label files under
  \<open>labels/\<close>. A label line is \<open>(cls, *xywh, conf)\<close> or \<open>(cls, *xywh)\<close> printed with \<open>%g\<close>;
  the model keeps the class, the box and the optional confidence. The crops of
  \<open>save_one_box\<close> go to \<open>crops/\<close>, which neither listing of lines 400 and 405 reads, and are
  cut from \<open>imc\<close>; they are left out.
\<close>

datatype fname = Top string | Label string

datatype content = Picture image | Lines "(nat \<times> box \<times> rat option) list"

type_synonym files = "(fname \<times> content) list"

definition imwrite :: "fname \<Rightarrow> image \<Rightarrow> files \<Rightarrow> files" where
  "imwrite n img fs = AList.update n (Picture img) fs"

text \<open>\<open>with open(txt_path + '.txt', 'a') as f: f.write(...)\<close>.\<close>

definition append_line :: "fname \<Rightarrow> nat \<times> box \<times> rat option \<Rightarrow> files \<Rightarrow> files" where
  "append_line n l fs =
     (case map_of fs n of
        Some (Lines ls) \<Rightarrow> AList.update n (Lines (ls @ [l])) fs
      | _ \<Rightarrow> AList.update n (Lines [l]) fs)"

text \<open>
  \<open>save_dir.glob('*.jpg')\<close>, \<open>save_dir.glob('*.png')\<close> and \<open>save_dir.glob('labels/*.txt')\<close>.
  The order of a directory listing is the file system's; the model lists in the order of
  creation.
\<close>

definition glob_top :: "string \<Rightarrow> files \<Rightarrow> fname list" where
  "glob_top sfx fs = filter (\<lambda>n. case n of Top x \<Rightarrow> suffix sfx x | Label x \<Rightarrow> False) (map fst fs)"

definition glob_labels :: "files \<Rightarrow> fname list" where
  "glob_labels fs = filter (\<lambda>n. case n of Top x \<Rightarrow> False | Label x \<Rightarrow> suffix ''.txt'' x) (map fst fs)"

section \<open>Configuration, collaborators and frames\<close>

record config =
  conf_thres :: rat
  iou_thres :: rat
  max_det :: nat
  classes :: "nat list option"
  agnostic_nms :: bool
  augment :: bool
  visualize :: bool
  view_img :: bool
  save_txt :: bool
  save_conf :: bool
  save_crop :: bool
  nosave :: bool
  source :: string

text \<open>Line 60: \<open>save_img = not nosave and not source.endswith('.txt')\<close>.\<close>

definition save_img :: "config \<Rightarrow> bool" where
  "save_img cfg \<longleftrightarrow> \<not> nosave cfg \<and> \<not> suffix ''.txt'' (source cfg)"

datatype tensor = Tensor nat

datatype prediction = Prediction nat

text \<open>
  The collaborators of \<open>run\<close>. The three detectors are functions of the input tensor and the
  two flags: they are read-only after loading (specification, section 5). The loader
  \<open>LoadImages\<close> yields one image per iteration, so the list that \<open>non_max_suppression\<close> returns
  has one entry, the detections of that image, and the model takes that entry as its result.
  \<open>cv2.imread\<close> returns \<open>None\<close> for a file it cannot decode.
\<close>

record env =
  model :: "tensor \<Rightarrow> bool \<Rightarrow> bool \<Rightarrow> prediction"
  model_fault :: "tensor \<Rightarrow> bool \<Rightarrow> bool \<Rightarrow> prediction"
  model_single :: "tensor \<Rightarrow> bool \<Rightarrow> bool \<Rightarrow> prediction"
  non_max_suppression ::
    "prediction \<Rightarrow> rat \<Rightarrow> rat \<Rightarrow> nat list option \<Rightarrow> bool \<Rightarrow> nat \<Rightarrow> raw_row list"
  scale_coords :: "tensor \<Rightarrow> raster \<Rightarrow> rat \<times> rat \<times> rat \<times> rat \<Rightarrow> rat \<times> rat \<times> rat \<times> rat"
  imread :: "string \<Rightarrow> raster option"

text \<open>
  One item of the dataset, with what the environment supplies while the frame is processed:
  the readings of \<open>time_sync()\<close> in call order, and for the two tests
  \<open>cv2.waitKey(1) & 0xFF == ord('s')\<close> (lines 331 and 353) whether the key was down when
  panel \<open>im\<close> (and module \<open>m\<close>) reached the test. \<open>base_name\<close> and \<open>ext\<close> are
  \<open>os.path.splitext(os.path.basename(path))\<close>, \<open>stem\<close> is \<open>Path(path).stem\<close>.
\<close>

record frame =
  path :: string
  base_name :: string
  ext :: string
  stem :: string
  im :: tensor
  im0s :: raster
  clock :: "nat \<Rightarrow> rat"
  key_s_module :: "nat \<Rightarrow> nat \<Rightarrow> bool"
  key_s_panel :: "nat \<Rightarrow> bool"

section \<open>One detector pass: lines 122-173, 192-240 and 257-305\<close>

record pass_state =
  boxes :: "box list"
  probs :: "rat list"
  heap :: store
  disk :: files

text \<open>The body of \<open>for *xyxy, conf, cls in reversed(det)\<close>, with \<open>im0\<close> at address \<open>a\<close>.\<close>

definition write_result :: "config \<Rightarrow> frame \<Rightarrow> nat \<Rightarrow> row \<Rightarrow> pass_state \<Rightarrow> pass_state" where
  "write_result cfg fr a r st =
     \<lparr>boxes = boxes st @ [[xyxy r ! 0, xyxy r ! 1, xyxy r ! 2, xyxy r ! 3]],
      probs = probs st @ [conf r],
      heap = (if save_img cfg \<or> save_crop cfg \<or> view_img cfg then box_label a r (heap st)
              else heap st),
      disk = (if save_txt cfg
              then append_line (Label (stem fr @ ''.txt''))
                     (cls r, xyxy r, if save_conf cfg then Some (conf r) else None) (disk st)
              else disk st)\<rparr>"

text \<open>
  The pass over one detector's output: \<open>im0 = im0s.copy()\<close>,
  \<open>imc = im0.copy() if save_crop else im0\<close>, the rescaling of the rows and the loop over
  them in reverse. It returns the address of \<open>im0\<close>, which is the array of
  \<open>annotator.result()\<close>, and the lists, store and files.
\<close>

definition detection_pass ::
  "env \<Rightarrow> config \<Rightarrow> frame \<Rightarrow> raw_row list \<Rightarrow> store \<Rightarrow> files \<Rightarrow> nat \<times> pass_state" where
  "detection_pass e cfg fr det s fs =
     (let (im0, s1) = new_array \<lparr>base = im0s fr, ops = []\<rparr> s;
          s2 = (if save_crop cfg then snd (copy im0 s1) else s1);
          det' = rescale (scale_coords e (im fr) (im0s fr)) det
      in (im0, fold (write_result cfg fr im0) (rev det')
                 \<lparr>boxes = [], probs = [], heap = s2, disk = fs\<rparr>))"

section \<open>Correlation and the anomaly image: lines 311-354\<close>

text \<open>
  The loop \<open>for m in range(len(pred_single_solar_modules))\<close> of lines 324-332 for the panel
  box \<open>p\<close>: a module whose midpoint passes the test is outlined on \<open>temp\<close>, and the loop is
  left when the key test of line 331 succeeds.
\<close>

fun module_loop :: "(nat \<Rightarrow> bool) \<Rightarrow> box \<Rightarrow> box list \<Rightarrow> nat \<Rightarrow> nat list \<Rightarrow> store \<Rightarrow> store" where
  "module_loop key p M temp [] s = s"
| "module_loop key p M temp (m # ms) s =
     (if inside (mid_point (M ! m)) p
      then (let s' = draw temp (Rectangle (corner1 (M ! m)) (corner2 (M ! m)) (255, 0, 0) 2) s
            in if key m then s' else module_loop key p M temp ms s')
      else module_loop key p M temp ms s)"

text \<open>
  What lines 337-349 draw for panel box \<open>p\<close> and fault box \<open>f\<close> with confidence \<open>prob\<close> on
  \<open>temp2\<close>, and again on \<open>img_detection\<close>: the panel box filled, the fault box, the label.
\<close>

definition fault_marks :: "box \<Rightarrow> box \<Rightarrow> rat \<Rightarrow> draw_op list" where
  "fault_marks p f prob =
     [Rectangle (corner1 p) (corner2 p) (0, 0, 255) (- 1),
      Rectangle (corner1 f) (corner2 f) (255, 255, 0) 5,
      PutText (fault_label prob) (f ! 0 - 30, f ! 1 - 1) (255, 0, 0) 2]"

text \<open>
  The loop \<open>for ml in range(len(pred_fault_solar_modules))\<close> of lines 334-351, in the
  source's order of calls; it has no \<open>break\<close>.
\<close>

fun fault_loop :: "box \<Rightarrow> box list \<Rightarrow> rat list \<Rightarrow> nat \<Rightarrow> nat \<Rightarrow> nat list \<Rightarrow> store \<Rightarrow> store" where
  "fault_loop p F pr temp2 img_detection [] s = s"
| "fault_loop p F pr temp2 img_detection (ml # mls) s =
     (if inside (mid_point (F ! ml)) p
      then (let k = fault_marks p (F ! ml) (pr ! ml);
                s1 = draw temp2 (k ! 0) s;
                s2 = draw temp2 (k ! 1) s1;
                s3 = draw img_detection (k ! 0) s2;
                s4 = draw img_detection (k ! 1) s3;
                s5 = draw temp2 (k ! 2) s4;
                s6 = draw img_detection (k ! 2) s5
            in fault_loop p F pr temp2 img_detection mls s6)
      else fault_loop p F pr temp2 img_detection mls s)"

text \<open>
  The loop \<open>for im in range(len(pred_full_solar_modules))\<close> of lines 313-354. Each iteration
  reads the file again (\<open>r\<close> is what \<open>cv2.imread(path)\<close> returns) and binds both \<open>temp\<close> and
  \<open>temp2\<close> to that one array; the loop is left when the key test of line 353 succeeds.
\<close>

fun panel_loop ::
  "frame \<Rightarrow> raster \<Rightarrow> box list \<Rightarrow> box list \<Rightarrow> box list \<Rightarrow> rat list \<Rightarrow> nat \<Rightarrow> nat list \<Rightarrow>
   store \<Rightarrow> store" where
  "panel_loop fr r P M F pr img_detection [] s = s"
| "panel_loop fr r P M F pr img_detection (i # is) s =
     (let (img, s1) = new_array \<lparr>base = r, ops = []\<rparr> s;
          temp = img; temp2 = img;
          s2 = draw temp (Rectangle (corner1 (P ! i)) (corner2 (P ! i)) (0, 255, 0) 5) s1;
          s3 = module_loop (key_s_module fr i) (P ! i) M temp [0..<length M] s2;
          s4 = fault_loop (P ! i) F pr temp2 img_detection [0..<length F] s3
      in if key_s_panel fr i then s4
         else panel_loop fr r P M F pr img_detection is s4)"

section \<open>One frame: the body of the loop of line 99\<close>

datatype error = AttributeError | ZeroDivisionError

text \<open>
  The accumulators \<open>dt\<close> and \<open>seen\<close> of line 98. The log string \<open>s\<close>, the windows of
  \<open>cv2.imshow\<close>, the waits of \<open>cv2.waitKey(1000)\<close> and the \<open>print\<close> of line 319 change no
  array, list or file and are not modelled.
\<close>

record timing =
  dt0 :: rat
  dt1 :: rat
  dt2 :: rat
  seen :: nat

text \<open>Lines 111-117: the panel detector and its non-max suppression, with the caller's thresholds.\<close>

definition panel_inference :: "env \<Rightarrow> config \<Rightarrow> frame \<Rightarrow> timing \<Rightarrow> raw_row list \<times> timing" where
  "panel_inference e cfg fr tm =
     (let t2 = clock fr 1;
          pred = model e (im fr) (augment cfg) (visualize cfg);
          t3 = clock fr 2;
          tm1 = tm\<lparr>dt1 := dt1 tm + (t3 - t2)\<rparr>;
          pred' = non_max_suppression e pred (conf_thres cfg) (iou_thres cfg) (classes cfg)
                    (agnostic_nms cfg) (max_det cfg);
          tm2 = tm1\<lparr>dt2 := dt2 tm1 + (clock fr 3 - t3)\<rparr>
      in (pred', tm2))"

text \<open>Lines 181-187: the fault detector; line 186 passes \<open>0.01, 0.01, None, False\<close>.\<close>

definition fault_inference :: "env \<Rightarrow> config \<Rightarrow> frame \<Rightarrow> timing \<Rightarrow> raw_row list \<times> timing" where
  "fault_inference e cfg fr tm =
     (let t2 = clock fr 1;
          pred = model_fault e (im fr) (augment cfg) (visualize cfg);
          t3 = clock fr 4;
          tm1 = tm\<lparr>dt1 := dt1 tm + (t3 - t2)\<rparr>;
          pred' = non_max_suppression e pred (1 / 100) (1 / 100) None False (max_det cfg);
          tm2 = tm1\<lparr>dt2 := dt2 tm1 + (clock fr 5 - t3)\<rparr>
      in (pred', tm2))"

text \<open>
  Lines 242-252: the module detector is called twice, the second result replacing the first;
  line 251 passes \<open>0.01, 0.01, None, False\<close>.
\<close>

definition single_inference :: "env \<Rightarrow> config \<Rightarrow> frame \<Rightarrow> timing \<Rightarrow> raw_row list \<times> timing" where
  "single_inference e cfg fr tm =
     (let t2 = clock fr 1;
          pred = model_single e (im fr) (augment cfg) (visualize cfg);
          t3 = clock fr 6;
          tm1 = tm\<lparr>dt1 := dt1 tm + (t3 - t2)\<rparr>;
          pred = model_single e (im fr) (augment cfg) (visualize cfg);
          t3 = clock fr 7;
          tm2 = tm1\<lparr>dt1 := dt1 tm1 + (t3 - t2)\<rparr>;
          pred' = non_max_suppression e pred (1 / 100) (1 / 100) None False (max_det cfg);
          tm3 = tm2\<lparr>dt2 := dt2 tm2 + (clock fr 8 - t3)\<rparr>
      in (pred', tm3))"

record frame_result =
  pred_full_solar_modules :: "box list"
  prob_full_solar_modules :: "rat list"
  pred_fault_solar_modules :: "box list"
  prob_fault_solar_modules :: "rat list"
  pred_single_solar_modules :: "box list"
  prob_single_solar_modules :: "rat list"
  arrays :: store
  im1 :: nat
  im0 :: nat
  img_detection :: nat
  written :: files
  elapsed :: timing

text \<open>
  Lines 357-366, for an image file (for a video file or a stream \<open>cv2.imread(path)\<close> gives
  no array and line 311 has raised before): the three images written under the names
  \<open>_panel_detection\<close>, \<open>_panel_block_detection\<close> and \<open>_anomaly_detection\<close>.
\<close>

definition save_results :: "config \<Rightarrow> frame \<Rightarrow> store \<Rightarrow> nat \<Rightarrow> nat \<Rightarrow> nat \<Rightarrow> files \<Rightarrow> files" where
  "save_results cfg fr s a1 a0 d fs =
     (if save_img cfg
      then imwrite (Top (base_name fr @ ''_anomaly_detection'' @ ext fr)) (s ! d)
             (imwrite (Top (base_name fr @ ''_panel_block_detection'' @ ext fr)) (s ! a0)
                (imwrite (Top (base_name fr @ ''_panel_detection'' @ ext fr)) (s ! a1) fs))
      else fs)"

text \<open>
  Lines 307-366 given the three passes: the two sorts, \<open>img_detection\<close>, the panel loop and
  the saving. \<open>a1\<close> is \<open>im1\<close>, the array of the panel pass; \<open>a0\<close> is \<open>im0\<close>, the array of the
  module pass.
\<close>

definition correlate ::
  "env \<Rightarrow> config \<Rightarrow> frame \<Rightarrow> nat \<Rightarrow> pass_state \<Rightarrow> pass_state \<Rightarrow> nat \<Rightarrow> pass_state \<Rightarrow> timing \<Rightarrow>
   error + frame_result" where
  "correlate e cfg fr a1 full fault a0 single tm =
     (let single_sorted = py_sort (boxes single);
          full_sorted = py_sort (boxes full)
      in case imread e (path fr) of
           None \<Rightarrow> Inl AttributeError
         | Some r \<Rightarrow>
             (let (tmp, s1) = new_array \<lparr>base = r, ops = []\<rparr> (heap single);
                  (d, s2) = copy tmp s1;
                  s3 = panel_loop fr r full_sorted single_sorted (boxes fault) (probs fault) d
                         [0..<length full_sorted] s2
              in Inr \<lparr>pred_full_solar_modules = full_sorted,
                      prob_full_solar_modules = probs full,
                      pred_fault_solar_modules = boxes fault,
                      prob_fault_solar_modules = probs fault,
                      pred_single_solar_modules = single_sorted,
                      prob_single_solar_modules = probs single,
                      arrays = s3, im1 = a1, im0 = a0, img_detection = d,
                      written = save_results cfg fr s3 a1 a0 d (disk single),
                      elapsed = tm\<rparr>))"

text \<open>The body of the loop of line 99 for one item of the dataset.\<close>

definition run_frame :: "env \<Rightarrow> config \<Rightarrow> frame \<Rightarrow> timing \<Rightarrow> files \<Rightarrow> error + frame_result" where
  "run_frame e cfg fr tm fs =
     (let tm0 = tm\<lparr>dt0 := dt0 tm + (clock fr 1 - clock fr 0)\<rparr>;
          (det_full, tm1) = panel_inference e cfg fr tm0;
          (a1, full) = detection_pass e cfg fr det_full [] fs;
          (det_fault, tm2) = fault_inference e cfg fr (tm1\<lparr>seen := seen tm1 + 1\<rparr>);
          (a2, fault) = detection_pass e cfg fr det_fault (heap full) (disk full);
          (det_single, tm3) = single_inference e cfg fr (tm2\<lparr>seen := seen tm2 + 1\<rparr>);
          (a0, single) = detection_pass e cfg fr det_single (heap fault) (disk fault)
      in correlate e cfg fr a1 full fault a0 single (tm3\<lparr>seen := seen tm3 + 1\<rparr>))"

text \<open>
  The pipeline with the first of the two calls of lines 242-248 removed: lines 242-244 are
  gone, the rest is as above.
\<close>

definition single_inference_once :: "env \<Rightarrow> config \<Rightarrow> frame \<Rightarrow> timing \<Rightarrow> raw_row list \<times> timing" where
  "single_inference_once e cfg fr tm =
     (let t2 = clock fr 1;
          pred = model_single e (im fr) (augment cfg) (visualize cfg);
          t3 = clock fr 6;
          tm1 = tm\<lparr>dt1 := dt1 tm + (t3 - t2)\<rparr>;
          pred' = non_max_suppression e pred (1 / 100) (1 / 100) None False (max_det cfg);
          tm2 = tm1\<lparr>dt2 := dt2 tm1 + (clock fr 7 - t3)\<rparr>
      in (pred', tm2))"

definition run_frame_once :: "env \<Rightarrow> config \<Rightarrow> frame \<Rightarrow> timing \<Rightarrow> files \<Rightarrow> error + frame_result" where
  "run_frame_once e cfg fr tm fs =
     (let tm0 = tm\<lparr>dt0 := dt0 tm + (clock fr 1 - clock fr 0)\<rparr>;
          (det_full, tm1) = panel_inference e cfg fr tm0;
          (a1, full) = detection_pass e cfg fr det_full [] fs;
          (det_fault, tm2) = fault_inference e cfg fr (tm1\<lparr>seen := seen tm1 + 1\<rparr>);
          (a2, fault) = detection_pass e cfg fr det_fault (heap full) (disk full);
          (det_single, tm3) = single_inference_once e cfg fr (tm2\<lparr>seen := seen tm2 + 1\<rparr>);
          (a0, single) = detection_pass e cfg fr det_single (heap fault) (disk fault)
      in correlate e cfg fr a1 full fault a0 single (tm3\<lparr>seen := seen tm3 + 1\<rparr>))"

section \<open>The whole run: lines 96-409\<close>

text \<open>
  The loop over the dataset; an exception of a frame ends the run. The arrays of a frame are
  not used by the next one; the files and the accumulators are.
\<close>

fun run_frames ::
  "(env \<Rightarrow> config \<Rightarrow> frame \<Rightarrow> timing \<Rightarrow> files \<Rightarrow> error + frame_result) \<Rightarrow>
   env \<Rightarrow> config \<Rightarrow> frame list \<Rightarrow> timing \<Rightarrow> files \<Rightarrow> error + timing \<times> files" where
  "run_frames body e cfg [] tm fs = Inr (tm, fs)"
| "run_frames body e cfg (fr # frs) tm fs =
     (case body e cfg fr tm fs of
        Inl err \<Rightarrow> Inl err
      | Inr res \<Rightarrow> run_frames body e cfg frs (elapsed res) (written res))"

text \<open>
  Lines 396-409: the value \<open>run\<close> returns, the image files and the label files found in
  \<open>save_dir\<close>, each \<open>None\<close> when not asked for or when there is none.
\<close>

definition return_value :: "config \<Rightarrow> files \<Rightarrow> fname list option \<times> fname list option" where
  "return_value cfg fs =
     (let image_files = glob_top ''.jpg'' fs @ glob_top ''.png'' fs;
          saved_images = (if save_img cfg \<and> image_files \<noteq> [] then Some image_files else None);
          txt_files = glob_labels fs;
          saved_txts = (if save_txt cfg \<and> txt_files \<noteq> [] then Some txt_files else None)
      in (saved_images, saved_txts))"

text \<open>
  \<open>run\<close> on the items of the dataset, \<open>existing\<close> being what \<open>save_dir\<close> holds at the start
  (nothing unless \<open>exist_ok\<close> reuses a directory). Line 388 divides by \<open>seen\<close>, which is zero
  when no frame was processed.
\<close>

text \<open>\<open>strip_optimizer(weights)\<close> of line 394 rewrites the weight files and is not modelled.\<close>

definition run_with ::
  "(env \<Rightarrow> config \<Rightarrow> frame \<Rightarrow> timing \<Rightarrow> files \<Rightarrow> error + frame_result) \<Rightarrow>
   env \<Rightarrow> config \<Rightarrow> files \<Rightarrow> frame list \<Rightarrow> error + fname list option \<times> fname list option" where
  "run_with body e cfg existing dataset =
     (case run_frames body e cfg dataset \<lparr>dt0 = 0, dt1 = 0, dt2 = 0, seen = 0\<rparr> existing of
        Inl err \<Rightarrow> Inl err
      | Inr (tm, fs) \<Rightarrow>
          if seen tm = 0 then Inl ZeroDivisionError else Inr (return_value cfg fs))"

definition run :: "env \<Rightarrow> config \<Rightarrow> files \<Rightarrow> frame list \<Rightarrow> error + fname list option \<times> fname list option" where
  "run e cfg existing dataset = run_with run_frame e cfg existing dataset"

definition run_once :: "env \<Rightarrow> config \<Rightarrow> files \<Rightarrow> frame list \<Rightarrow> error + fname list option \<times> fname list option" where
  "run_once e cfg existing dataset = run_with run_frame_once e cfg existing dataset"

section \<open>Closed forms of the loops\<close>

text \<open>
  The definitions of this section describe what the loops above compute, as lists; the
  lemmas after them prove that the loops compute exactly that. \<open>add_ops a ds\<close> is the
  store after the drawing calls \<open>ds\<close> on the array at \<open>a\<close>; \<open>reached key is\<close> lists the
  iterations a loop with a key test runs; \<open>frame_value\<close> is the result of a frame whose file
  \<open>cv2.imread\<close> decodes to \<open>r\<close>.
\<close>

definition add_ops :: "nat \<Rightarrow> draw_op list \<Rightarrow> store \<Rightarrow> store" where
  "add_ops a ds s = s[a := (s ! a)\<lparr>ops := ops (s ! a) @ ds\<rparr>]"

fun module_marks :: "(nat \<Rightarrow> bool) \<Rightarrow> box \<Rightarrow> box list \<Rightarrow> nat list \<Rightarrow> draw_op list" where
  "module_marks key p M [] = []"
| "module_marks key p M (m # ms) =
     (if inside (mid_point (M ! m)) p
      then Rectangle (corner1 (M ! m)) (corner2 (M ! m)) (255, 0, 0) 2 #
           (if key m then [] else module_marks key p M ms)
      else module_marks key p M ms)"

definition panel_fault_marks :: "box \<Rightarrow> box list \<Rightarrow> rat list \<Rightarrow> nat list \<Rightarrow> draw_op list" where
  "panel_fault_marks p F pr mls =
     concat (map (\<lambda>ml. fault_marks p (F ! ml) (pr ! ml))
                 (filter (\<lambda>ml. inside (mid_point (F ! ml)) p) mls))"

fun reached :: "(nat \<Rightarrow> bool) \<Rightarrow> nat list \<Rightarrow> nat list" where
  "reached key [] = []"
| "reached key (i # is) = i # (if key i then [] else reached key is)"

definition display_array ::
  "frame \<Rightarrow> raster \<Rightarrow> box list \<Rightarrow> box list \<Rightarrow> box list \<Rightarrow> rat list \<Rightarrow> nat \<Rightarrow> image" where
  "display_array fr r P M F pr i =
     \<lparr>base = r,
      ops = Rectangle (corner1 (P ! i)) (corner2 (P ! i)) (0, 255, 0) 5 #
            module_marks (key_s_module fr i) (P ! i) M [0..<length M] @
            panel_fault_marks (P ! i) F pr [0..<length F]\<rparr>"

definition anomaly_marks :: "frame \<Rightarrow> box list \<Rightarrow> box list \<Rightarrow> rat list \<Rightarrow> nat list \<Rightarrow> draw_op list" where
  "anomaly_marks fr P F pr is =
     concat (map (\<lambda>i. panel_fault_marks (P ! i) F pr [0..<length F]) (reached (key_s_panel fr) is))"

definition box4 :: "row \<Rightarrow> box" where
  "box4 r = [xyxy r ! 0, xyxy r ! 1, xyxy r ! 2, xyxy r ! 3]"

definition draws :: "config \<Rightarrow> bool" where
  "draws cfg \<longleftrightarrow> save_img cfg \<or> save_crop cfg \<or> view_img cfg"

definition labels_of :: "config \<Rightarrow> row list \<Rightarrow> draw_op list" where
  "labels_of cfg rs = (if draws cfg then map (\<lambda>r. BoxLabel (xyxy r) (conf r) (cls r)) rs else [])"

definition write_line :: "config \<Rightarrow> frame \<Rightarrow> row \<Rightarrow> files \<Rightarrow> files" where
  "write_line cfg fr r fs =
     (if save_txt cfg
      then append_line (Label (stem fr @ ''.txt''))
             (cls r, xyxy r, if save_conf cfg then Some (conf r) else None) fs
      else fs)"

definition panel_rows :: "env \<Rightarrow> config \<Rightarrow> frame \<Rightarrow> row list" where
  "panel_rows e cfg fr =
     rescale (scale_coords e (im fr) (im0s fr))
       (non_max_suppression e (model e (im fr) (augment cfg) (visualize cfg))
          (conf_thres cfg) (iou_thres cfg) (classes cfg) (agnostic_nms cfg) (max_det cfg))"

definition fault_rows :: "env \<Rightarrow> config \<Rightarrow> frame \<Rightarrow> row list" where
  "fault_rows e cfg fr =
     rescale (scale_coords e (im fr) (im0s fr))
       (non_max_suppression e (model_fault e (im fr) (augment cfg) (visualize cfg))
          (1 / 100) (1 / 100) None False (max_det cfg))"

definition module_rows :: "env \<Rightarrow> config \<Rightarrow> frame \<Rightarrow> row list" where
  "module_rows e cfg fr =
     rescale (scale_coords e (im fr) (im0s fr))
       (non_max_suppression e (model_single e (im fr) (augment cfg) (visualize cfg))
          (1 / 100) (1 / 100) None False (max_det cfg))"

definition pass_arrays :: "config \<Rightarrow> frame \<Rightarrow> row list \<Rightarrow> store" where
  "pass_arrays cfg fr rows =
     \<lparr>base = im0s fr, ops = labels_of cfg (rev rows)\<rparr> #
     (if save_crop cfg then [\<lparr>base = im0s fr, ops = []\<rparr>] else [])"

definition frame_timing :: "frame \<Rightarrow> timing \<Rightarrow> timing" where
  "frame_timing fr tm =
     \<lparr>dt0 = dt0 tm + (clock fr 1 - clock fr 0),
      dt1 = dt1 tm + (clock fr 2 - clock fr 1) + (clock fr 4 - clock fr 1) +
            (clock fr 6 - clock fr 1) + (clock fr 7 - clock fr 1),
      dt2 = dt2 tm + (clock fr 3 - clock fr 2) + (clock fr 5 - clock fr 4) +
            (clock fr 8 - clock fr 7),
      seen = seen tm + 3\<rparr>"

definition frame_timing_once :: "frame \<Rightarrow> timing \<Rightarrow> timing" where
  "frame_timing_once fr tm =
     \<lparr>dt0 = dt0 tm + (clock fr 1 - clock fr 0),
      dt1 = dt1 tm + (clock fr 2 - clock fr 1) + (clock fr 4 - clock fr 1) +
            (clock fr 6 - clock fr 1),
      dt2 = dt2 tm + (clock fr 3 - clock fr 2) + (clock fr 5 - clock fr 4) +
            (clock fr 7 - clock fr 6),
      seen = seen tm + 3\<rparr>"

definition passes_heap :: "env \<Rightarrow> config \<Rightarrow> frame \<Rightarrow> store" where
  "passes_heap e cfg fr =
     pass_arrays cfg fr (panel_rows e cfg fr) @ pass_arrays cfg fr (fault_rows e cfg fr) @
     pass_arrays cfg fr (module_rows e cfg fr)"

definition passes_disk :: "env \<Rightarrow> config \<Rightarrow> frame \<Rightarrow> files \<Rightarrow> files" where
  "passes_disk e cfg fr fs =
     fold (write_line cfg fr) (rev (module_rows e cfg fr))
       (fold (write_line cfg fr) (rev (fault_rows e cfg fr))
          (fold (write_line cfg fr) (rev (panel_rows e cfg fr)) fs))"

definition frame_arrays :: "env \<Rightarrow> config \<Rightarrow> frame \<Rightarrow> raster \<Rightarrow> store" where
  "frame_arrays e cfg fr r =
     (let P = py_sort (boxes_of (panel_rows e cfg fr));
          M = py_sort (boxes_of (module_rows e cfg fr));
          F = boxes_of (fault_rows e cfg fr);
          pr = probs_of (fault_rows e cfg fr)
      in passes_heap e cfg fr @
         [\<lparr>base = r, ops = []\<rparr>, \<lparr>base = r, ops = anomaly_marks fr P F pr [0..<length P]\<rparr>] @
         map (display_array fr r P M F pr) (reached (key_s_panel fr) [0..<length P]))"

definition frame_value :: "env \<Rightarrow> config \<Rightarrow> frame \<Rightarrow> raster \<Rightarrow> files \<Rightarrow> timing \<Rightarrow> frame_result" where
  "frame_value e cfg fr r fs tm =
     \<lparr>pred_full_solar_modules = py_sort (boxes_of (panel_rows e cfg fr)),
      prob_full_solar_modules = probs_of (panel_rows e cfg fr),
      pred_fault_solar_modules = boxes_of (fault_rows e cfg fr),
      prob_fault_solar_modules = probs_of (fault_rows e cfg fr),
      pred_single_solar_modules = py_sort (boxes_of (module_rows e cfg fr)),
      prob_single_solar_modules = probs_of (module_rows e cfg fr),
      arrays = frame_arrays e cfg fr r,
      im1 = 0,
      im0 = (if save_crop cfg then 4 else 2),
      img_detection = (if save_crop cfg then 7 else 4),
      written = save_results cfg fr (frame_arrays e cfg fr r) 0 (if save_crop cfg then 4 else 2)
                  (if save_crop cfg then 7 else 4) (passes_disk e cfg fr fs),
      elapsed = tm\<rparr>"

section \<open>The images of a frame and example frames\<close>

text \<open>
  The three arrays that lines 362-366 write: \<open>im1\<close> under \<open>_panel_detection\<close>, \<open>im0\<close> under
  \<open>_panel_block_detection\<close> and \<open>img_detection\<close> under \<open>_anomaly_detection\<close>.
\<close>

definition panel_image :: "frame_result \<Rightarrow> image" where
  "panel_image res = arrays res ! im1 res"

definition module_image :: "frame_result \<Rightarrow> image" where
  "module_image res = arrays res ! im0 res"

definition anomaly_image :: "frame_result \<Rightarrow> image" where
  "anomaly_image res = arrays res ! img_detection res"

text \<open>
  Example collaborators: the detectors return fixed rows, the non-max suppression keeps the
  rows above the confidence threshold, the frame is already at the network's size, and the
  one readable file is \<open>a.jpg\<close>.
\<close>

definition ex_row :: "int \<Rightarrow> int \<Rightarrow> int \<Rightarrow> int \<Rightarrow> rat \<Rightarrow> raw_row" where
  "ex_row a b c d p =
     \<lparr>raw_xyxy = (of_int a, of_int b, of_int c, of_int d), raw_conf = p, raw_cls = 0\<rparr>"

definition ex_env :: "raw_row list \<Rightarrow> raw_row list \<Rightarrow> raw_row list \<Rightarrow> env" where
  "ex_env ps fs ms =
     \<lparr>model = (\<lambda>t a v. Prediction 3),
      model_fault = (\<lambda>t a v. Prediction 4),
      model_single = (\<lambda>t a v. Prediction 5),
      non_max_suppression = (\<lambda>p c u k g n.
         filter (\<lambda>r. c < raw_conf r)
           (if p = Prediction 3 then ps else if p = Prediction 4 then fs else ms)),
      scale_coords = (\<lambda>t r c. c),
      imread = (\<lambda>p. if p = ''a.jpg'' then Some (Raster 7) else None)\<rparr>"

definition ex_cfg :: config where
  "ex_cfg = \<lparr>conf_thres = 1 / 4, iou_thres = 9 / 20, max_det = 1000, classes = None,
             agnostic_nms = False, augment = False, visualize = False, view_img = False,
             save_txt = False, save_conf = False, save_crop = False, nosave = False,
             source = ''a.jpg''\<rparr>"

definition ex_frame :: frame where
  "ex_frame = \<lparr>path = ''a.jpg'', base_name = ''a'', ext = ''.jpg'', stem = ''a'',
               im = Tensor 0, im0s = Raster 7, clock = (\<lambda>k. of_nat k),
               key_s_module = (\<lambda>i m. False), key_s_panel = (\<lambda>i. False)\<rparr>"

definition ex_tm :: timing where
  "ex_tm = \<lparr>dt0 = 0, dt1 = 0, dt2 = 0, seen = 0\<rparr>"

text \<open>
  Two overlapping panels \<open>(0,0,100,100)\<close> and \<open>(0,0,200,200)\<close>, one fault \<open>(40,40,60,60)\<close> and
  one module \<open>(10,10,20,20)\<close>, both with their midpoint inside both panels.
\<close>

definition overlap_env :: env where
  "overlap_env = ex_env [ex_row 0 0 100 100 (9 / 10), ex_row 0 0 200 200 (9 / 10)]
                        [ex_row 40 40 60 60 (833 / 1024)]
                        [ex_row 10 10 20 20 (7 / 8)]"

text \<open>No panel at all, and one module \<open>(10,10,20,20)\<close>.\<close>

definition lonely_env :: env where
  "lonely_env = ex_env [] [] [ex_row 10 10 20 20 (7 / 8)]"

text \<open>
  One panel \<open>(0,0,200,200)\<close> and two faults, emitted as \<open>(40,40,60,60)\<close> then
  \<open>(150,150,160,160)\<close>.
\<close>

definition two_faults_env :: env where
  "two_faults_env = ex_env [ex_row 0 0 200 200 (9 / 10)]
                           [ex_row 40 40 60 60 (3 / 4), ex_row 150 150 160 160 (1 / 2)]
                           []"

text \<open>One panel \<open>(0,0,100,100)\<close>, one module \<open>(10,10,20,20)\<close> and one fault \<open>(40,40,60,60)\<close>.\<close>

definition single_env :: env where
  "single_env = ex_env [ex_row 0 0 100 100 (9 / 10)]
                       [ex_row 40 40 60 60 (833 / 1024)]
                       [ex_row 10 10 20 20 (7 / 8)]"



section \<open>The loops compute their closed forms\<close>

lemma add_ops_Nil: "add_ops a [] s = s"
  by (simp add: add_ops_def)

lemma length_add_ops: "length (add_ops a ds s) = length s"
  by (simp add: add_ops_def)

lemma draw_add_ops: "draw a d s = add_ops a [d] s"
  by (simp add: draw_def add_ops_def)

lemma add_ops_add_ops:
  "a < length s \<Longrightarrow> add_ops a es (add_ops a ds s) = add_ops a (ds @ es) s"
  by (simp add: add_ops_def)

lemma add_ops_commute:
  "a \<noteq> b \<Longrightarrow> add_ops a ds (add_ops b es s) = add_ops b es (add_ops a ds s)"
  by (simp add: add_ops_def list_update_swap)

lemma module_loop_eq:
  "temp < length s \<Longrightarrow> module_loop key p M temp ms s = add_ops temp (module_marks key p M ms) s"
  by (induction ms arbitrary: s)
     (simp_all add: add_ops_Nil draw_add_ops add_ops_add_ops length_add_ops Let_def)

lemma six_draws:
  assumes "a < length s" "d < length s" "a \<noteq> d"
  shows "draw d k2 (draw a k2 (draw d k1 (draw d k0 (draw a k1 (draw a k0 s))))) =
         add_ops d [k0, k1, k2] (add_ops a [k0, k1, k2] s)"
proof -
  have "draw d k2 (draw a k2 (draw d k1 (draw d k0 (draw a k1 (draw a k0 s))))) =
        add_ops d [k2] (add_ops a [k2] (add_ops d [k0, k1] (add_ops a [k0, k1] s)))"
    using assms by (simp add: draw_add_ops add_ops_add_ops length_add_ops)
  also have "\<dots> = add_ops d [k2] (add_ops d [k0, k1] (add_ops a [k2] (add_ops a [k0, k1] s)))"
    using assms by (simp add: add_ops_commute [of a d])
  also have "\<dots> = add_ops d [k0, k1, k2] (add_ops a [k0, k1, k2] s)"
    using assms by (simp add: add_ops_add_ops length_add_ops)
  finally show ?thesis .
qed

lemma fault_loop_eq:
  "temp2 < length s \<Longrightarrow> d < length s \<Longrightarrow> temp2 \<noteq> d \<Longrightarrow>
   fault_loop p F pr temp2 d mls s =
     add_ops d (panel_fault_marks p F pr mls) (add_ops temp2 (panel_fault_marks p F pr mls) s)"
proof (induction mls arbitrary: s)
  case Nil
  then show ?case by (simp add: panel_fault_marks_def add_ops_Nil)
next
  case (Cons ml mls)
  show ?case
  proof (cases "inside (mid_point (F ! ml)) p")
    case False
    then show ?thesis using Cons by (simp add: panel_fault_marks_def)
  next
    case True
    let ?k = "fault_marks p (F ! ml) (pr ! ml)"
    let ?s6 = "add_ops d ?k (add_ops temp2 ?k s)"
    have "fault_loop p F pr temp2 d (ml # mls) s = fault_loop p F pr temp2 d mls ?s6"
      using True Cons.prems by (simp add: Let_def fault_marks_def six_draws)
    also have "\<dots> = add_ops d (panel_fault_marks p F pr mls)
                      (add_ops temp2 (panel_fault_marks p F pr mls) ?s6)"
      using Cons.prems by (intro Cons.IH) (simp_all add: length_add_ops)
    also have "\<dots> = add_ops d (panel_fault_marks p F pr mls) (add_ops d ?k
                      (add_ops temp2 (panel_fault_marks p F pr mls) (add_ops temp2 ?k s)))"
      using Cons.prems by (simp add: add_ops_commute [of temp2 d])
    also have "\<dots> = add_ops d (panel_fault_marks p F pr (ml # mls))
                      (add_ops temp2 (panel_fault_marks p F pr (ml # mls)) s)"
      using Cons.prems True
      by (simp add: panel_fault_marks_def add_ops_add_ops length_add_ops)
    finally show ?thesis .
  qed
qed


lemma add_ops_append_left:
  "a < length s \<Longrightarrow> add_ops a ds (s @ t) = add_ops a ds s @ t"
  by (simp add: add_ops_def list_update_append nth_append)

lemma add_ops_fresh:
  "add_ops (length s) ds (s @ [x]) = s @ [x\<lparr>ops := ops x @ ds\<rparr>]"
  by (simp add: add_ops_def)

lemma panel_body_eq:
  assumes "d < length s"
  shows "fault_loop (P ! i) F pr (length s) d [0..<length F]
           (module_loop (key_s_module fr i) (P ! i) M (length s) [0..<length M]
              (draw (length s) (Rectangle (corner1 (P ! i)) (corner2 (P ! i)) (0, 255, 0) 5)
                 (s @ [\<lparr>base = r, ops = []\<rparr>]))) =
         add_ops d (panel_fault_marks (P ! i) F pr [0..<length F]) s @ [display_array fr r P M F pr i]"
proof -
  let ?o = "Rectangle (corner1 (P ! i)) (corner2 (P ! i)) (0, 255, 0) 5"
  let ?mm = "module_marks (key_s_module fr i) (P ! i) M [0..<length M]"
  let ?K = "panel_fault_marks (P ! i) F pr [0..<length F]"
  let ?s2 = "s @ [\<lparr>base = r, ops = [?o]\<rparr>]"
  have s2: "draw (length s) ?o (s @ [\<lparr>base = r, ops = []\<rparr>]) = ?s2"
    by (simp add: draw_add_ops add_ops_fresh)
  have s3: "module_loop (key_s_module fr i) (P ! i) M (length s) [0..<length M] ?s2 =
            s @ [\<lparr>base = r, ops = ?o # ?mm\<rparr>]"
    by (simp add: module_loop_eq add_ops_fresh)
  have s4: "fault_loop (P ! i) F pr (length s) d [0..<length F] (s @ [\<lparr>base = r, ops = ?o # ?mm\<rparr>]) =
            add_ops d ?K (s @ [\<lparr>base = r, ops = ?o # ?mm @ ?K\<rparr>])"
    using assms by (simp add: fault_loop_eq add_ops_fresh)
  show ?thesis
    using assms by (simp add: s2 s3 s4 add_ops_append_left display_array_def)
qed

lemma panel_loop_eq:
  "d < length s \<Longrightarrow>
   panel_loop fr r P M F pr d is s =
     add_ops d (anomaly_marks fr P F pr is) s @
     map (display_array fr r P M F pr) (reached (key_s_panel fr) is)"
proof (induction "is" arbitrary: s)
  case Nil
  then show ?case by (simp add: anomaly_marks_def add_ops_Nil)
next
  case (Cons i "is")
  let ?K = "panel_fault_marks (P ! i) F pr [0..<length F]"
  let ?s4 = "add_ops d ?K s @ [display_array fr r P M F pr i]"
  have d4: "d < length ?s4"
    using Cons.prems by (simp add: length_add_ops)
  show ?case
  proof (cases "key_s_panel fr i")
    case True
    then show ?thesis
      using Cons.prems by (simp add: new_array_def panel_body_eq anomaly_marks_def)
  next
    case False
    have "panel_loop fr r P M F pr d (i # is) s = panel_loop fr r P M F pr d is ?s4"
      using False Cons.prems by (simp add: new_array_def panel_body_eq)
    also have "\<dots> = add_ops d (anomaly_marks fr P F pr is) ?s4 @
                      map (display_array fr r P M F pr) (reached (key_s_panel fr) is)"
      by (rule Cons.IH [OF d4])
    also have "\<dots> = add_ops d (anomaly_marks fr P F pr (i # is)) s @
                      map (display_array fr r P M F pr) (reached (key_s_panel fr) (i # is))"
      using False Cons.prems
      by (simp add: anomaly_marks_def add_ops_append_left add_ops_add_ops length_add_ops)
    finally show ?thesis .
  qed
qed

lemma fold_write_result:
  "a < length (heap st) \<Longrightarrow>
   fold (write_result cfg fr a) rs st =
     \<lparr>boxes = boxes st @ map box4 rs, probs = probs st @ map conf rs,
      heap = add_ops a (labels_of cfg rs) (heap st),
      disk = fold (write_line cfg fr) rs (disk st)\<rparr>"
proof (induction rs arbitrary: st)
  case Nil
  then show ?case by (simp add: labels_of_def add_ops_Nil)
next
  case (Cons r rs)
  have "a < length (heap (write_result cfg fr a r st))"
    using Cons.prems by (simp add: write_result_def box_label_def draw_add_ops length_add_ops)
  from Cons.IH [OF this] Cons.prems show ?case
    by (simp add: write_result_def box_label_def draw_add_ops add_ops_add_ops labels_of_def
        draws_def box4_def write_line_def)
qed


lemma detection_pass_eq:
  "detection_pass e cfg fr det s fs =
     (length s,
      \<lparr>boxes = boxes_of (rescale (scale_coords e (im fr) (im0s fr)) det),
       probs = probs_of (rescale (scale_coords e (im fr) (im0s fr)) det),
       heap = s @ pass_arrays cfg fr (rescale (scale_coords e (im fr) (im0s fr)) det),
       disk = fold (write_line cfg fr) (rev (rescale (scale_coords e (im fr) (im0s fr)) det)) fs\<rparr>)"
proof -
  let ?img = "\<lparr>base = im0s fr, ops = []\<rparr>"
  let ?s2 = "s @ ?img # (if save_crop cfg then [?img] else [])"
  have s2: "(if save_crop cfg then snd (copy (length s) (s @ [?img])) else s @ [?img]) = ?s2"
    by (simp add: copy_def new_array_def)
  have upd: "add_ops (length s) ds ?s2 = s @ \<lparr>base = im0s fr, ops = ds\<rparr> #
               (if save_crop cfg then [?img] else [])" for ds
    by (simp add: add_ops_def)
  show ?thesis
    unfolding detection_pass_def new_array_def Let_def prod.case s2
    by (simp add: fold_write_result upd pass_arrays_def boxes_of_def probs_of_def box4_def)
qed


lemma length_pass_arrays: "length (pass_arrays cfg fr rows) = (if save_crop cfg then 2 else 1)"
  by (simp add: pass_arrays_def)

lemma length_passes_heap: "length (passes_heap e cfg fr) = (if save_crop cfg then 6 else 3)"
  by (simp add: passes_heap_def length_pass_arrays)

lemma correlate_eq:
  assumes r: "imread e (path fr) = Some r"
    and h: "heap single = passes_heap e cfg fr"
    and P: "boxes full = boxes_of (panel_rows e cfg fr)"
    and M: "boxes single = boxes_of (module_rows e cfg fr)"
    and F: "boxes fault = boxes_of (fault_rows e cfg fr)"
  shows "correlate e cfg fr a1 full fault a0 single tm =
     Inr \<lparr>pred_full_solar_modules = py_sort (boxes_of (panel_rows e cfg fr)),
          prob_full_solar_modules = probs full,
          pred_fault_solar_modules = boxes_of (fault_rows e cfg fr),
          prob_fault_solar_modules = probs fault,
          pred_single_solar_modules = py_sort (boxes_of (module_rows e cfg fr)),
          prob_single_solar_modules = probs single,
          arrays = (let P = py_sort (boxes_of (panel_rows e cfg fr));
                        M = py_sort (boxes_of (module_rows e cfg fr));
                        F = boxes_of (fault_rows e cfg fr)
                    in passes_heap e cfg fr @
                       [\<lparr>base = r, ops = []\<rparr>,
                        \<lparr>base = r, ops = anomaly_marks fr P F (probs fault) [0..<length P]\<rparr>] @
                       map (display_array fr r P M F (probs fault))
                         (reached (key_s_panel fr) [0..<length P])),
          im1 = a1, im0 = a0, img_detection = length (passes_heap e cfg fr) + 1,
          written = save_results cfg fr
             (let P = py_sort (boxes_of (panel_rows e cfg fr));
                        M = py_sort (boxes_of (module_rows e cfg fr));
                        F = boxes_of (fault_rows e cfg fr)
                    in passes_heap e cfg fr @
                       [\<lparr>base = r, ops = []\<rparr>,
                        \<lparr>base = r, ops = anomaly_marks fr P F (probs fault) [0..<length P]\<rparr>] @
                       map (display_array fr r P M F (probs fault))
                         (reached (key_s_panel fr) [0..<length P]))
             a1 a0 (length (passes_heap e cfg fr) + 1) (disk single),
          elapsed = tm\<rparr>"
proof -
  let ?h = "passes_heap e cfg fr"
  let ?s2 = "?h @ [\<lparr>base = r, ops = []\<rparr>, \<lparr>base = r, ops = []\<rparr>]"
  have d: "length ?h + 1 < length ?s2" by simp
  have upd: "add_ops (length ?h + 1) ds ?s2 = ?h @ [\<lparr>base = r, ops = []\<rparr>, \<lparr>base = r, ops = ds\<rparr>]" for ds
    by (simp add: add_ops_def list_update_append nth_append)
  have s2: "copy (length ?h) (?h @ [\<lparr>base = r, ops = []\<rparr>]) = (length ?h + 1, ?s2)"
    by (simp add: copy_def new_array_def)
  show ?thesis
    unfolding correlate_def Let_def r h P M F option.case new_array_def prod.case s2
    by (simp only: panel_loop_eq [OF d] upd) simp
qed


lemma panel_inference_eq:
  "panel_inference e cfg fr tm =
     (non_max_suppression e (model e (im fr) (augment cfg) (visualize cfg))
        (conf_thres cfg) (iou_thres cfg) (classes cfg) (agnostic_nms cfg) (max_det cfg),
      tm\<lparr>dt1 := dt1 tm + (clock fr 2 - clock fr 1), dt2 := dt2 tm + (clock fr 3 - clock fr 2)\<rparr>)"
  by (simp add: panel_inference_def Let_def)

lemma fault_inference_eq:
  "fault_inference e cfg fr tm =
     (non_max_suppression e (model_fault e (im fr) (augment cfg) (visualize cfg))
        (1 / 100) (1 / 100) None False (max_det cfg),
      tm\<lparr>dt1 := dt1 tm + (clock fr 4 - clock fr 1), dt2 := dt2 tm + (clock fr 5 - clock fr 4)\<rparr>)"
  by (simp add: fault_inference_def Let_def)

lemma single_inference_eq:
  "single_inference e cfg fr tm =
     (non_max_suppression e (model_single e (im fr) (augment cfg) (visualize cfg))
        (1 / 100) (1 / 100) None False (max_det cfg),
      tm\<lparr>dt1 := dt1 tm + (clock fr 6 - clock fr 1) + (clock fr 7 - clock fr 1),
         dt2 := dt2 tm + (clock fr 8 - clock fr 7)\<rparr>)"
  by (simp add: single_inference_def Let_def)

lemma single_inference_once_eq:
  "single_inference_once e cfg fr tm =
     (non_max_suppression e (model_single e (im fr) (augment cfg) (visualize cfg))
        (1 / 100) (1 / 100) None False (max_det cfg),
      tm\<lparr>dt1 := dt1 tm + (clock fr 6 - clock fr 1), dt2 := dt2 tm + (clock fr 7 - clock fr 6)\<rparr>)"
  by (simp add: single_inference_once_def Let_def)

lemma run_frame_Some:
  assumes r: "imread e (path fr) = Some r"
  shows "run_frame e cfg fr tm fs = Inr (frame_value e cfg fr r fs (frame_timing fr tm))"
proof -
  have len: "length (passes_heap e cfg fr) + 1 = (if save_crop cfg then 7 else 4)"
    by (simp add: length_passes_heap)
  show ?thesis
    unfolding run_frame_def Let_def panel_inference_eq fault_inference_eq single_inference_eq
      detection_pass_eq prod.case
    apply (subst correlate_eq [OF r])
        apply (simp_all add: passes_heap_def panel_rows_def fault_rows_def module_rows_def) [4]
    apply (simp add: frame_value_def frame_arrays_def Let_def length_passes_heap frame_timing_def
        passes_disk_def length_pass_arrays)
    apply (simp add: panel_rows_def fault_rows_def module_rows_def eval_nat_numeral)
    done
qed

lemma run_frame_None:
  "imread e (path fr) = None \<Longrightarrow> run_frame e cfg fr tm fs = Inl AttributeError"
  by (simp add: run_frame_def correlate_def Let_def split_def)

lemma run_frame_once_Some:
  assumes r: "imread e (path fr) = Some r"
  shows "run_frame_once e cfg fr tm fs = Inr (frame_value e cfg fr r fs (frame_timing_once fr tm))"
proof -
  have len: "length (passes_heap e cfg fr) + 1 = (if save_crop cfg then 7 else 4)"
    by (simp add: length_passes_heap)
  show ?thesis
    unfolding run_frame_once_def Let_def panel_inference_eq fault_inference_eq
      single_inference_once_eq detection_pass_eq prod.case
    apply (subst correlate_eq [OF r])
        apply (simp_all add: passes_heap_def panel_rows_def fault_rows_def module_rows_def) [4]
    apply (simp add: frame_value_def frame_arrays_def Let_def length_passes_heap frame_timing_once_def
        passes_disk_def length_pass_arrays)
    apply (simp add: panel_rows_def fault_rows_def module_rows_def eval_nat_numeral)
    done
qed

lemma run_frame_once_None:
  "imread e (path fr) = None \<Longrightarrow> run_frame_once e cfg fr tm fs = Inl AttributeError"
  by (simp add: run_frame_once_def correlate_def Let_def split_def)

section \<open>What a frame leaves in its arrays\<close>

lemma reached_upt_iff:
  "i \<in> set (reached key [a..<b]) \<longleftrightarrow> a \<le> i \<and> i < b \<and> (\<forall>j. a \<le> j \<and> j < i \<longrightarrow> \<not> key j)"
proof (induction "b - a" arbitrary: a)
  case 0
  then show ?case by auto
next
  case (Suc n)
  then have ab: "a < b" and n: "n = b - Suc a" by auto
  have split: "[a..<b] = a # [Suc a..<b]"
    using ab by (simp add: upt_conv_Cons)
  have IH: "i \<in> set (reached key [Suc a..<b]) \<longleftrightarrow>
              Suc a \<le> i \<and> i < b \<and> (\<forall>j. Suc a \<le> j \<and> j < i \<longrightarrow> \<not> key j)"
    by (rule Suc.hyps(1) [OF n])
  show ?case
  proof (cases "i = a")
    case True
    then show ?thesis using ab by (auto simp add: split)
  next
    case False
    have "(\<forall>j. a \<le> j \<and> j < i \<longrightarrow> \<not> key j) \<longleftrightarrow>
          (a < i \<longrightarrow> \<not> key a) \<and> (\<forall>j. Suc a \<le> j \<and> j < i \<longrightarrow> \<not> key j)"
    proof
      assume L: "\<forall>j. a \<le> j \<and> j < i \<longrightarrow> \<not> key j"
      have "\<forall>j. Suc a \<le> j \<and> j < i \<longrightarrow> \<not> key j"
        using L by (simp add: Suc_le_eq less_imp_le)
      moreover have "a < i \<longrightarrow> \<not> key a"
        using L by simp
      ultimately show "(a < i \<longrightarrow> \<not> key a) \<and> (\<forall>j. Suc a \<le> j \<and> j < i \<longrightarrow> \<not> key j)"
        by simp
    next
      assume R: "(a < i \<longrightarrow> \<not> key a) \<and> (\<forall>j. Suc a \<le> j \<and> j < i \<longrightarrow> \<not> key j)"
      show "\<forall>j. a \<le> j \<and> j < i \<longrightarrow> \<not> key j"
      proof (intro allI impI)
        fix j
        assume j: "a \<le> j \<and> j < i"
        then consider "j = a" | "Suc a \<le> j"
          by linarith
        then show "\<not> key j"
          using R j by cases simp_all
      qed
    qed
    then show ?thesis
      using False IH by (auto simp add: split)
  qed
qed

lemma reached_upt0_iff:
  "i \<in> set (reached key [0..<n]) \<longleftrightarrow> i < n \<and> (\<forall>j<i. \<not> key j)"
  by (simp add: reached_upt_iff)


lemma set_panel_fault_marks:
  "set (panel_fault_marks p F pr [0..<n]) =
     (\<Union>ml \<in> {ml. ml < n \<and> inside (mid_point (F ! ml)) p}. set (fault_marks p (F ! ml) (pr ! ml)))"
  by (auto simp add: panel_fault_marks_def)

lemma set_anomaly_marks:
  "set (anomaly_marks fr P F pr [0..<n]) =
     (\<Union>i \<in> {i. i < n \<and> (\<forall>j<i. \<not> key_s_panel fr j)}.
        \<Union>ml \<in> {ml. ml < length F \<and> inside (mid_point (F ! ml)) (P ! i)}.
          set (fault_marks (P ! i) (F ! ml) (pr ! ml)))"
  by (auto simp add: anomaly_marks_def set_panel_fault_marks reached_upt0_iff)

lemma frame_value_fields:
  "pred_full_solar_modules (frame_value e cfg fr r fs tm) = py_sort (boxes_of (panel_rows e cfg fr))"
  "prob_full_solar_modules (frame_value e cfg fr r fs tm) = probs_of (panel_rows e cfg fr)"
  "pred_fault_solar_modules (frame_value e cfg fr r fs tm) = boxes_of (fault_rows e cfg fr)"
  "prob_fault_solar_modules (frame_value e cfg fr r fs tm) = probs_of (fault_rows e cfg fr)"
  "pred_single_solar_modules (frame_value e cfg fr r fs tm) = py_sort (boxes_of (module_rows e cfg fr))"
  "prob_single_solar_modules (frame_value e cfg fr r fs tm) = probs_of (module_rows e cfg fr)"
  "arrays (frame_value e cfg fr r fs tm) = frame_arrays e cfg fr r"
  "im1 (frame_value e cfg fr r fs tm) = 0"
  "im0 (frame_value e cfg fr r fs tm) = (if save_crop cfg then 4 else 2)"
  "img_detection (frame_value e cfg fr r fs tm) = (if save_crop cfg then 7 else 4)"
  "elapsed (frame_value e cfg fr r fs tm) = tm"
  by (simp_all add: frame_value_def)

lemma frame_arrays_nth:
  "frame_arrays e cfg fr r ! 0 = \<lparr>base = im0s fr, ops = labels_of cfg (rev (panel_rows e cfg fr))\<rparr>"
  "frame_arrays e cfg fr r ! (if save_crop cfg then 4 else 2) =
     \<lparr>base = im0s fr, ops = labels_of cfg (rev (module_rows e cfg fr))\<rparr>"
  "frame_arrays e cfg fr r ! (if save_crop cfg then 7 else 4) =
     \<lparr>base = r, ops = anomaly_marks fr (py_sort (boxes_of (panel_rows e cfg fr)))
        (boxes_of (fault_rows e cfg fr)) (probs_of (fault_rows e cfg fr))
        [0..<length (py_sort (boxes_of (panel_rows e cfg fr)))]\<rparr>"
  by (simp_all add: frame_arrays_def passes_heap_def pass_arrays_def Let_def nth_append
      eval_nat_numeral)

lemma frame_arrays_display:
  "k < length (reached (key_s_panel fr) [0..<length (py_sort (boxes_of (panel_rows e cfg fr)))]) \<Longrightarrow>
   frame_arrays e cfg fr r ! ((if save_crop cfg then 7 else 4) + 1 + k) =
     display_array fr r (py_sort (boxes_of (panel_rows e cfg fr)))
       (py_sort (boxes_of (module_rows e cfg fr))) (boxes_of (fault_rows e cfg fr))
       (probs_of (fault_rows e cfg fr))
       (reached (key_s_panel fr) [0..<length (py_sort (boxes_of (panel_rows e cfg fr)))] ! k)"
  by (simp add: frame_arrays_def passes_heap_def pass_arrays_def Let_def nth_append
      eval_nat_numeral)

lemma length_frame_arrays:
  "length (frame_arrays e cfg fr r) =
     (if save_crop cfg then 7 else 4) + 1 +
     length (reached (key_s_panel fr) [0..<length (py_sort (boxes_of (panel_rows e cfg fr)))])"
  by (simp add: frame_arrays_def passes_heap_def pass_arrays_def Let_def)

lemma inside_mid_point:
  "inside (mid_point [a, b, c, d]) [x1, y1, x2, y2] \<longleftrightarrow>
     2 * x1 < a + c \<and> a + c < 2 * x2 \<and> 2 * y1 < b + d \<and> b + d < 2 * y2"
proof -
  have h1: "(of_int u :: rat) * 2 < of_int v + of_int w \<longleftrightarrow> 2 * u < v + w" for u v w :: int
  proof -
    have "(of_int u :: rat) * 2 < of_int v + of_int w \<longleftrightarrow> (of_int (2 * u) :: rat) < of_int (v + w)"
      by (simp add: mult.commute)
    then show ?thesis
      by (simp only: of_int_less_iff)
  qed
  have h2: "(of_int v :: rat) + of_int w < of_int u * 2 \<longleftrightarrow> v + w < 2 * u" for u v w :: int
  proof -
    have "(of_int v :: rat) + of_int w < of_int u * 2 \<longleftrightarrow> (of_int (v + w) :: rat) < of_int (2 * u)"
      by (simp add: mult.commute)
    then show ?thesis
      by (simp only: of_int_less_iff)
  qed
  show ?thesis
    by (simp add: inside_def mid_point_def h1 h2)
qed

section \<open>Example frames evaluated\<close>


lemma text_in_fault_marks:
  "PutText (fault_label q) (f ! 0 - 30, f ! 1 - 1) (255, 0, 0) 2 \<in> set (fault_marks p f q)"
  by (simp add: fault_marks_def)

lemma py_int_trunc:
  "0 \<le> q \<Longrightarrow> of_int (py_int q) \<le> q \<and> q < of_int (py_int q) + 1"
  by (simp add: py_int_def) linarith

lemma torch_round_of_int: "torch_round (of_int n) = n"
  by (simp add: torch_round_def)

lemma rescale_ex_row:
  "rescale_row (\<lambda>c. c) (ex_row a b c d p) = \<lparr>xyxy = [a, b, c, d], conf = p, cls = 0\<rparr>"
  by (simp add: rescale_row_def ex_row_def torch_round_of_int)

lemma raw_conf_ex_row: "raw_conf (ex_row a b c d p) = p"
  by (simp add: ex_row_def)

lemma ex_env_rows:
  "panel_rows (ex_env ps fs ms) ex_cfg ex_frame =
     map (rescale_row (\<lambda>c. c)) (filter (\<lambda>r. 1 / 4 < raw_conf r) ps)"
  "fault_rows (ex_env ps fs ms) ex_cfg ex_frame =
     map (rescale_row (\<lambda>c. c)) (filter (\<lambda>r. 1 / 100 < raw_conf r) fs)"
  "module_rows (ex_env ps fs ms) ex_cfg ex_frame =
     map (rescale_row (\<lambda>c. c)) (filter (\<lambda>r. 1 / 100 < raw_conf r) ms)"
  by (simp_all add: panel_rows_def fault_rows_def module_rows_def ex_env_def ex_cfg_def
      ex_frame_def rescale_def)

lemma ex_env_run:
  "run_frame (ex_env ps fs ms) ex_cfg ex_frame ex_tm [] =
     Inr (frame_value (ex_env ps fs ms) ex_cfg ex_frame (Raster 7) [] (frame_timing ex_frame ex_tm))"
  by (rule run_frame_Some) (simp add: ex_env_def ex_frame_def)

lemma ex_flags:
  "save_crop ex_cfg = False" "save_img ex_cfg = True" "draws ex_cfg = True"
  "key_s_panel ex_frame = (\<lambda>i. False)" "key_s_module ex_frame = (\<lambda>i m. False)"
  "im0s ex_frame = Raster 7" "base_name ex_frame = ''a''" "ext ex_frame = ''.jpg''"
  by (simp_all add: ex_cfg_def ex_frame_def save_img_def draws_def suffix_to_prefix)

lemma single_rows:
  "panel_rows single_env ex_cfg ex_frame = [\<lparr>xyxy = [0, 0, 100, 100], conf = 9 / 10, cls = 0\<rparr>]"
  "fault_rows single_env ex_cfg ex_frame = [\<lparr>xyxy = [40, 40, 60, 60], conf = 833 / 1024, cls = 0\<rparr>]"
  "module_rows single_env ex_cfg ex_frame = [\<lparr>xyxy = [10, 10, 20, 20], conf = 7 / 8, cls = 0\<rparr>]"
  by (simp_all add: single_env_def ex_env_rows raw_conf_ex_row rescale_ex_row)

lemma label_8134: "fault_label (833 / 1024) = ''81.34%''"
  by code_simp

lemma single_result:
  "run_frame single_env ex_cfg ex_frame ex_tm [] =
     Inr (frame_value single_env ex_cfg ex_frame (Raster 7) [] (frame_timing ex_frame ex_tm))"
  "pred_full_solar_modules (frame_value single_env ex_cfg ex_frame (Raster 7) [] t) = [[0, 0, 100, 100]]"
  "pred_fault_solar_modules (frame_value single_env ex_cfg ex_frame (Raster 7) [] t) = [[40, 40, 60, 60]]"
  "prob_fault_solar_modules (frame_value single_env ex_cfg ex_frame (Raster 7) [] t) = [833 / 1024]"
  "pred_single_solar_modules (frame_value single_env ex_cfg ex_frame (Raster 7) [] t) = [[10, 10, 20, 20]]"
     apply (simp add: single_env_def ex_env_run)
    apply (simp_all add: frame_value_fields single_rows boxes_of_def probs_of_def py_sort_def)
  done

lemma single_anomaly:
  "ops (anomaly_image (frame_value single_env ex_cfg ex_frame (Raster 7) [] t)) =
     [Rectangle (0, 0) (100, 100) (0, 0, 255) (- 1), Rectangle (40, 40) (60, 60) (255, 255, 0) 5,
      PutText ''81.34%'' (10, 39) (255, 0, 0) 2]"
  apply (simp add: anomaly_image_def frame_value_fields frame_arrays_nth)
  apply (simp add: ex_flags single_rows
      boxes_of_def probs_of_def py_sort_def anomaly_marks_def panel_fault_marks_def
      fault_marks_def label_8134 inside_mid_point corner1_def corner2_def)
  done

lemma mid_point_edge:
  assumes "fst (mid_point b) = of_int (p ! 0) \<or> fst (mid_point b) = of_int (p ! 2) \<or>
           snd (mid_point b) = of_int (p ! 1) \<or> snd (mid_point b) = of_int (p ! 3)"
  shows "\<not> inside (mid_point b) p"
  using assms by (auto simp add: inside_def)

section \<open>Properties of midpoint and containment\<close>

text \<open>
  C8. For every box with \<open>x1 \<le> x2\<close> and \<open>y1 \<le> y2\<close>, the containment test of lines 325-326
  applied to the box and its own midpoint holds when the box has positive width and positive
  height, and fails when the box has zero width or zero height.
\<close>

theorem own_midpoint_inside:
  assumes "x1 \<le> x2" and "y1 \<le> y2"
  shows "(x1 < x2 \<and> y1 < y2 \<longrightarrow> inside (mid_point [x1, y1, x2, y2]) [x1, y1, x2, y2]) \<and>
         (x1 = x2 \<or> y1 = y2 \<longrightarrow> \<not> inside (mid_point [x1, y1, x2, y2]) [x1, y1, x2, y2])"
  using assms by (auto simp add: inside_mid_point)

theorem own_midpoint_inside_witness:
  "inside (mid_point [0, 0, 100, 100]) [0, 0, 100, 100] \<and>
   \<not> inside (mid_point [7, 3, 7, 50]) [7, 3, 7, 50]"
  using own_midpoint_inside [of 0 100 0 100] own_midpoint_inside [of 7 7 3 50]
  by simp

section \<open>The anomaly image\<close>

text \<open>
  C5. The test of lines 326 and 336 is the strict one, \<open>x1 < mx < x2\<close> and \<open>y1 < my < y2\<close>. A
  module or fault whose midpoint lies on an edge of a panel box fails it, and the iteration
  of the module loop or of the fault loop for that detection and that panel draws nothing:
  every array is left as it was.
\<close>

theorem edge_midpoint_not_inside:
  assumes "fst (mid_point b) = of_int (p ! 0) \<or> fst (mid_point b) = of_int (p ! 2) \<or>
           snd (mid_point b) = of_int (p ! 1) \<or> snd (mid_point b) = of_int (p ! 3)"
  shows "\<not> inside (mid_point b) p \<and>
         (F ! ml = b \<longrightarrow> fault_loop p F pr temp2 d [ml] s = s) \<and>
         (M ! m = b \<longrightarrow> module_loop key p M temp [m] s = s) \<and>
         (inside (mx, my) [x1, y1, x2, y2] \<longleftrightarrow>
            of_int x1 < mx \<and> mx < of_int x2 \<and> of_int y1 < my \<and> my < of_int y2)"
  using mid_point_edge [OF assms] by (auto simp add: inside_def)

theorem edge_midpoint_not_inside_witness:
  "mid_point [90, 40, 110, 60] = (100, 50) \<and>
   fst (mid_point [90, 40, 110, 60]) = of_int ([0, 0, 100, 100] ! 2) \<and>
   \<not> inside (mid_point [90, 40, 110, 60]) [0, 0, 100, 100] \<and>
   fault_loop [0, 0, 100, 100] [[90, 40, 110, 60]] [1 / 2] 1 0 [0]
     [\<lparr>base = Raster 7, ops = []\<rparr>, \<lparr>base = Raster 7, ops = []\<rparr>] =
     [\<lparr>base = Raster 7, ops = []\<rparr>, \<lparr>base = Raster 7, ops = []\<rparr>] \<and>
   module_loop (\<lambda>m. False) [0, 0, 100, 100] [[90, 40, 110, 60]] 1 [0]
     [\<lparr>base = Raster 7, ops = []\<rparr>, \<lparr>base = Raster 7, ops = []\<rparr>] =
     [\<lparr>base = Raster 7, ops = []\<rparr>, \<lparr>base = Raster 7, ops = []\<rparr>]"
proof -
  have m: "mid_point [90, 40, 110, 60] = (100, 50)"
    by (simp add: mid_point_def)
  have h: "fst (mid_point [90, 40, 110, 60]) = of_int ([0, 0, 100, 100] ! 0) \<or>
           fst (mid_point [90, 40, 110, 60]) = of_int ([0, 0, 100, 100] ! 2) \<or>
           snd (mid_point [90, 40, 110, 60]) = of_int ([0, 0, 100, 100] ! 1) \<or>
           snd (mid_point [90, 40, 110, 60]) = of_int ([0, 0, 100, 100] ! 3)"
    by (simp add: m)
  from edge_midpoint_not_inside [OF h, of "[[90, 40, 110, 60]]" 0 "[1 / 2]" 1 0
      "[\<lparr>base = Raster 7, ops = []\<rparr>, \<lparr>base = Raster 7, ops = []\<rparr>]"
      "[[90, 40, 110, 60]]" 0 "\<lambda>m. False" 1]
  show ?thesis
    by (simp add: m)
qed



text \<open>
  C2, as amended. For every fault whose midpoint is strictly inside the box of a panel the
  loop reaches, the anomaly image carries the text \<open>str(int(score * 10000) / 100) + "%"\<close> at
  \<open>(x1 - 30, y1 - 1)\<close>: the scaled score is truncated, not rounded, so the number \<open>n\<close> printed
  as hundredths satisfies \<open>n \<le> score * 10000 < n + 1\<close>. The text is Python's shortest
  print of \<open>n / 100\<close>, with one or two decimals.
\<close>

theorem fault_label_truncates:
  assumes "imread e (path fr) = Some r"
  shows "\<exists>res. run_frame e cfg fr tm fs = Inr res \<and>
           (\<forall>i < length (pred_full_solar_modules res). (\<forall>j<i. \<not> key_s_panel fr j) \<longrightarrow>
              (\<forall>ml < length (pred_fault_solar_modules res).
                 inside (mid_point (pred_fault_solar_modules res ! ml))
                   (pred_full_solar_modules res ! i) \<longrightarrow>
                 PutText (str_hundredths (py_int (prob_fault_solar_modules res ! ml * 10000)) @ ''%'')
                   (pred_fault_solar_modules res ! ml ! 0 - 30,
                    pred_fault_solar_modules res ! ml ! 1 - 1) (255, 0, 0) 2
                   \<in> set (ops (anomaly_image res)))) \<and>
           (\<forall>q \<in> set (prob_fault_solar_modules res). 0 \<le> q \<longrightarrow>
              of_int (py_int (q * 10000)) \<le> q * 10000 \<and>
              q * 10000 < of_int (py_int (q * 10000)) + 1)"
proof -
  let ?res = "frame_value e cfg fr r fs (frame_timing fr tm)"
  let ?P = "py_sort (boxes_of (panel_rows e cfg fr))"
  let ?F = "boxes_of (fault_rows e cfg fr)"
  let ?pr = "probs_of (fault_rows e cfg fr)"
  have run: "run_frame e cfg fr tm fs = Inr ?res"
    by (rule run_frame_Some [OF assms])
  have ops: "ops (anomaly_image ?res) = anomaly_marks fr ?P ?F ?pr [0..<length ?P]"
    by (simp add: anomaly_image_def frame_value_fields frame_arrays_nth)
  have drawn: "PutText (str_hundredths (py_int (?pr ! ml * 10000)) @ ''%'')
            (?F ! ml ! 0 - 30, ?F ! ml ! 1 - 1) (255, 0, 0) 2
          \<in> set (anomaly_marks fr ?P ?F ?pr [0..<length ?P])"
    if "i < length ?P" "\<forall>j<i. \<not> key_s_panel fr j" "ml < length ?F"
      "inside (mid_point (?F ! ml)) (?P ! i)" for i ml
  proof -
    have "PutText (str_hundredths (py_int (?pr ! ml * 10000)) @ ''%'')
            (?F ! ml ! 0 - 30, ?F ! ml ! 1 - 1) (255, 0, 0) 2
          \<in> set (fault_marks (?P ! i) (?F ! ml) (?pr ! ml))"
      using text_in_fault_marks [of "?pr ! ml" "?F ! ml" "?P ! i"] by (simp add: fault_label_def)
    then show ?thesis
      using that unfolding set_anomaly_marks by blast
  qed
  have trunc: "\<forall>q \<in> set ?pr. 0 \<le> q \<longrightarrow>
              of_int (py_int (q * 10000)) \<le> q * 10000 \<and>
              q * 10000 < of_int (py_int (q * 10000)) + 1"
    by (simp add: py_int_trunc)
  show ?thesis
    unfolding run using drawn trunc by (simp add: ops frame_value_fields)
qed

theorem fault_label_truncates_witness:
  "imread single_env (path ex_frame) = Some (Raster 7) \<and>
   prob_fault_solar_modules (projr (run_frame single_env ex_cfg ex_frame ex_tm [])) = [833 / 1024] \<and>
   inside (mid_point (pred_fault_solar_modules (projr (run_frame single_env ex_cfg ex_frame ex_tm [])) ! 0))
     (pred_full_solar_modules (projr (run_frame single_env ex_cfg ex_frame ex_tm [])) ! 0) \<and>
   PutText ''81.34%'' (10, 39) (255, 0, 0) 2
     \<in> set (ops (anomaly_image (projr (run_frame single_env ex_cfg ex_frame ex_tm [])))) \<and>
   rat_of_int 8134 \<le> 833 / 1024 * 10000 \<and> 833 / 1024 * 10000 < rat_of_int 8134 + 1"
proof -
  have h: "imread single_env (path ex_frame) = Some (Raster 7)"
    by (simp add: single_env_def ex_env_def ex_frame_def)
  from fault_label_truncates [OF h, of ex_cfg ex_tm "[]"]
  obtain res where run: "run_frame single_env ex_cfg ex_frame ex_tm [] = Inr res"
    and drawn: "\<And>i ml. i < length (pred_full_solar_modules res) \<Longrightarrow>
              (\<forall>j<i. \<not> key_s_panel ex_frame j) \<Longrightarrow>
              ml < length (pred_fault_solar_modules res) \<Longrightarrow>
              inside (mid_point (pred_fault_solar_modules res ! ml)) (pred_full_solar_modules res ! i) \<Longrightarrow>
              PutText (str_hundredths (py_int (prob_fault_solar_modules res ! ml * 10000)) @ ''%'')
                (pred_fault_solar_modules res ! ml ! 0 - 30, pred_fault_solar_modules res ! ml ! 1 - 1)
                (255, 0, 0) 2 \<in> set (ops (anomaly_image res))"
    and trunc: "\<And>q. q \<in> set (prob_fault_solar_modules res) \<Longrightarrow> 0 \<le> q \<Longrightarrow>
              of_int (py_int (q * 10000)) \<le> q * 10000 \<and> q * 10000 < of_int (py_int (q * 10000)) + 1"
    by blast
  have res: "res = frame_value single_env ex_cfg ex_frame (Raster 7) [] (frame_timing ex_frame ex_tm)"
    using run by (simp add: single_result)
  have lab: "str_hundredths (py_int (833 / 1024 * 10000)) @ ''%'' = ''81.34%''"
    using label_8134 by (simp add: fault_label_def)
  have eight: "py_int (833 / 1024 * 10000) = 8134"
    by code_simp
  have "PutText ''81.34%'' (10, 39) (255, 0, 0) 2 \<in> set (ops (anomaly_image res))"
    using drawn [of 0 0] lab by (simp add: res single_result inside_mid_point)
  moreover have "rat_of_int 8134 \<le> 833 / 1024 * 10000 \<and> 833 / 1024 * 10000 < rat_of_int 8134 + 1"
    using trunc [of "833 / 1024"] eight by (simp add: res single_result)
  ultimately show ?thesis
    using h by (simp add: run res single_result inside_mid_point)
qed

theorem fault_label_round_counterexample:
  "prob_fault_solar_modules (projr (run_frame single_env ex_cfg ex_frame ex_tm [])) = [833 / 1024] \<and>
   ops (anomaly_image (projr (run_frame single_env ex_cfg ex_frame ex_tm []))) =
     [Rectangle (0, 0) (100, 100) (0, 0, 255) (- 1), Rectangle (40, 40) (60, 60) (255, 255, 0) 5,
      PutText ''81.34%'' (10, 39) (255, 0, 0) 2] \<and>
   spec_label (833 / 1024) = ''81.35%'' \<and>
   fault_label (1 / 2) = ''50.0%''"
proof -
  have "spec_label (833 / 1024) = ''81.35%''"
    by code_simp
  moreover have "fault_label (1 / 2) = ''50.0%''"
    by code_simp
  ultimately show ?thesis
    by (simp add: single_result single_anomaly)
qed

section \<open>Which panels a detection is marked under\<close>

lemma reached_no_key: "(\<forall>i. \<not> key i) \<Longrightarrow> reached key is = is"
  by (induction "is") simp_all

lemma module_marks_no_key:
  "(\<forall>m. \<not> key m) \<Longrightarrow>
   module_marks key p M ms =
     map (\<lambda>m. Rectangle (corner1 (M ! m)) (corner2 (M ! m)) (255, 0, 0) 2)
       (filter (\<lambda>m. inside (mid_point (M ! m)) p) ms)"
  by (induction ms) simp_all

lemma module_marks_upt_mem:
  "a \<le> m \<Longrightarrow> m < b \<Longrightarrow> inside (mid_point (M ! m)) p \<Longrightarrow>
   (\<forall>m'. a \<le> m' \<and> m' < m \<and> inside (mid_point (M ! m')) p \<longrightarrow> \<not> key m') \<Longrightarrow>
   Rectangle (corner1 (M ! m)) (corner2 (M ! m)) (255, 0, 0) 2 \<in> set (module_marks key p M [a..<b])"
proof (induction "b - a" arbitrary: a)
  case 0
  then show ?case by simp
next
  case (Suc n)
  have ab: "a < b" using Suc.prems by simp
  have split: "[a..<b] = a # [Suc a..<b]"
    using ab by (simp add: upt_conv_Cons)
  show ?case
  proof (cases "m = a")
    case True
    then show ?thesis using Suc.prems by (simp add: split)
  next
    case False
    then have am: "Suc a \<le> m" using Suc.prems by simp
    have n: "n = b - Suc a" using Suc.hyps(2) by simp
    have later: "\<forall>m'. Suc a \<le> m' \<and> m' < m \<and> inside (mid_point (M ! m')) p \<longrightarrow> \<not> key m'"
      using Suc.prems(4) by (simp add: Suc_le_eq less_imp_le)
    have IH: "Rectangle (corner1 (M ! m)) (corner2 (M ! m)) (255, 0, 0) 2
                \<in> set (module_marks key p M [Suc a..<b])"
      by (rule Suc.hyps(1) [OF n am Suc.prems(2) Suc.prems(3) later])
    have nokey: "inside (mid_point (M ! a)) p \<Longrightarrow> \<not> key a"
      using Suc.prems(4) am by (simp add: Suc_le_eq)
    show ?thesis
      using IH nokey by (simp add: split)
  qed
qed

lemma module_marks_upt_only:
  "x \<in> set (module_marks key p M [a..<b]) \<Longrightarrow>
   \<exists>m. a \<le> m \<and> m < b \<and> inside (mid_point (M ! m)) p \<and>
       (\<forall>m'. a \<le> m' \<and> m' < m \<and> inside (mid_point (M ! m')) p \<longrightarrow> \<not> key m') \<and>
       x = Rectangle (corner1 (M ! m)) (corner2 (M ! m)) (255, 0, 0) 2"
proof (induction "b - a" arbitrary: a)
  case 0
  then show ?case by simp
next
  case (Suc n)
  have ab: "a < b" using Suc.hyps(2) by simp
  have split: "[a..<b] = a # [Suc a..<b]"
    using ab by (simp add: upt_conv_Cons)
  have n: "n = b - Suc a" using Suc.hyps(2) by simp
  show ?case
  proof (cases "inside (mid_point (M ! a)) p")
    case True
    show ?thesis
    proof (cases "x = Rectangle (corner1 (M ! a)) (corner2 (M ! a)) (255, 0, 0) 2")
      case True
      have "a \<le> a \<and> a < b \<and> inside (mid_point (M ! a)) p \<and>
            (\<forall>m'. a \<le> m' \<and> m' < a \<and> inside (mid_point (M ! m')) p \<longrightarrow> \<not> key m') \<and>
            x = Rectangle (corner1 (M ! a)) (corner2 (M ! a)) (255, 0, 0) 2"
        using ab \<open>inside (mid_point (M ! a)) p\<close> True by auto
      then show ?thesis by blast
    next
      case False
      with True Suc.prems have k: "\<not> key a" and x: "x \<in> set (module_marks key p M [Suc a..<b])"
        by (auto simp add: split split: if_splits)
      from Suc.hyps(1) [OF n x] obtain m where m: "Suc a \<le> m" "m < b" "inside (mid_point (M ! m)) p"
        "\<forall>m'. Suc a \<le> m' \<and> m' < m \<and> inside (mid_point (M ! m')) p \<longrightarrow> \<not> key m'"
        "x = Rectangle (corner1 (M ! m)) (corner2 (M ! m)) (255, 0, 0) 2"
        by blast
      have "\<forall>m'. a \<le> m' \<and> m' < m \<and> inside (mid_point (M ! m')) p \<longrightarrow> \<not> key m'"
      proof (intro allI impI)
        fix m'
        assume h: "a \<le> m' \<and> m' < m \<and> inside (mid_point (M ! m')) p"
        then consider "m' = a" | "Suc a \<le> m'" by linarith
        then show "\<not> key m'"
          using k m(4) h by cases simp_all
      qed
      with m show ?thesis
        by (intro exI [of _ m]) simp
    qed
  next
    case False
    with Suc.prems have x: "x \<in> set (module_marks key p M [Suc a..<b])"
      by (simp add: split)
    from Suc.hyps(1) [OF n x] obtain m where m: "Suc a \<le> m" "m < b" "inside (mid_point (M ! m)) p"
      "\<forall>m'. Suc a \<le> m' \<and> m' < m \<and> inside (mid_point (M ! m')) p \<longrightarrow> \<not> key m'"
      "x = Rectangle (corner1 (M ! m)) (corner2 (M ! m)) (255, 0, 0) 2"
      by blast
    have "\<forall>m'. a \<le> m' \<and> m' < m \<and> inside (mid_point (M ! m')) p \<longrightarrow> \<not> key m'"
    proof (intro allI impI)
      fix m'
      assume h: "a \<le> m' \<and> m' < m \<and> inside (mid_point (M ! m')) p"
      then consider "m' = a" | "Suc a \<le> m'" by linarith
      then show "\<not> key m'"
        using False m(4) h by cases simp_all
    qed
    with m show ?thesis
      by (intro exI [of _ m]) simp
  qed
qed

text \<open>
  C1, as amended. There is no first-match rule: the loops are nested panel-outermost, and the
  only exits are the two \<open>s\<close> key tests. The panel loop reaches panel \<open>i\<close> of the sorted list
  exactly when the key was not down at line 353 in an earlier iteration. For every panel it
  reaches, every fault whose midpoint is strictly inside the panel's box is marked, in fault
  order, on the anomaly image and on the array read for that panel. The modules outlined on
  that array are exactly those whose midpoint is strictly inside the box and before which no
  such module had the key down at line 331. So a fault whose midpoint is inside the boxes of
  several reached panels is marked once under each of them, and so is a module when no key
  ended the module loop before it. With no \<open>s\<close> key every panel is reached and every module
  inside is outlined, in module order.
\<close>

theorem marked_under_every_containing_panel:
  assumes "imread e (path fr) = Some r"
  shows "\<exists>res. run_frame e cfg fr tm fs = Inr res \<and>
     (let P = pred_full_solar_modules res; M = pred_single_solar_modules res;
          F = pred_fault_solar_modules res; pr = prob_fault_solar_modules res;
          js = reached (key_s_panel fr) [0..<length P]
      in ops (anomaly_image res) =
           concat (map (\<lambda>i. concat (map (\<lambda>ml. fault_marks (P ! i) (F ! ml) (pr ! ml))
                                  (filter (\<lambda>ml. inside (mid_point (F ! ml)) (P ! i)) [0..<length F])))
                    js) \<and>
         length (arrays res) = img_detection res + 1 + length js \<and>
         (\<forall>k < length js.
            ops (arrays res ! (img_detection res + 1 + k)) =
              Rectangle (corner1 (P ! (js ! k))) (corner2 (P ! (js ! k))) (0, 255, 0) 5 #
              module_marks (key_s_module fr (js ! k)) (P ! (js ! k)) M [0..<length M] @
              concat (map (\<lambda>ml. fault_marks (P ! (js ! k)) (F ! ml) (pr ! ml))
                        (filter (\<lambda>ml. inside (mid_point (F ! ml)) (P ! (js ! k))) [0..<length F]))) \<and>
         ((\<forall>i. \<not> key_s_panel fr i) \<longrightarrow> js = [0..<length P]) \<and>
         (\<forall>i. (\<forall>m. \<not> key_s_module fr i m) \<longrightarrow>
            module_marks (key_s_module fr i) (P ! i) M [0..<length M] =
              map (\<lambda>m. Rectangle (corner1 (M ! m)) (corner2 (M ! m)) (255, 0, 0) 2)
                (filter (\<lambda>m. inside (mid_point (M ! m)) (P ! i)) [0..<length M])) \<and>
         (\<forall>i. i \<in> set js \<longleftrightarrow> i < length P \<and> (\<forall>j<i. \<not> key_s_panel fr j)) \<and>
         (\<forall>i m. m < length M \<and> inside (mid_point (M ! m)) (P ! i) \<and>
              (\<forall>m'<m. inside (mid_point (M ! m')) (P ! i) \<longrightarrow> \<not> key_s_module fr i m') \<longrightarrow>
            Rectangle (corner1 (M ! m)) (corner2 (M ! m)) (255, 0, 0) 2
              \<in> set (module_marks (key_s_module fr i) (P ! i) M [0..<length M])) \<and>
         (\<forall>i x. x \<in> set (module_marks (key_s_module fr i) (P ! i) M [0..<length M]) \<longrightarrow>
            (\<exists>m<length M. inside (mid_point (M ! m)) (P ! i) \<and>
               (\<forall>m'<m. inside (mid_point (M ! m')) (P ! i) \<longrightarrow> \<not> key_s_module fr i m') \<and>
               x = Rectangle (corner1 (M ! m)) (corner2 (M ! m)) (255, 0, 0) 2)))"
proof -
  let ?res = "frame_value e cfg fr r fs (frame_timing fr tm)"
  have run: "run_frame e cfg fr tm fs = Inr ?res"
    by (rule run_frame_Some [OF assms])
  have ops: "ops (anomaly_image ?res) =
      anomaly_marks fr (pred_full_solar_modules ?res) (pred_fault_solar_modules ?res)
        (prob_fault_solar_modules ?res) [0..<length (pred_full_solar_modules ?res)]"
    by (simp add: anomaly_image_def frame_value_fields frame_arrays_nth)
  have len: "length (arrays ?res) = img_detection ?res + 1 +
      length (reached (key_s_panel fr) [0..<length (pred_full_solar_modules ?res)])"
    by (simp add: frame_value_fields length_frame_arrays)
  have disp: "arrays ?res ! (img_detection ?res + 1 + k) =
      display_array fr r (pred_full_solar_modules ?res) (pred_single_solar_modules ?res)
        (pred_fault_solar_modules ?res) (prob_fault_solar_modules ?res)
        (reached (key_s_panel fr) [0..<length (pred_full_solar_modules ?res)] ! k)"
    if "k < length (reached (key_s_panel fr) [0..<length (pred_full_solar_modules ?res)])" for k
    using that frame_arrays_display [of k fr e cfg r] by (simp add: frame_value_fields)
  let ?P = "pred_full_solar_modules ?res"
  let ?M = "pred_single_solar_modules ?res"
  let ?F = "pred_fault_solar_modules ?res"
  let ?pr = "prob_fault_solar_modules ?res"
  let ?js = "reached (key_s_panel fr) [0..<length ?P]"
  have c1: "ops (anomaly_image ?res) =
           concat (map (\<lambda>i. concat (map (\<lambda>ml. fault_marks (?P ! i) (?F ! ml) (?pr ! ml))
                                  (filter (\<lambda>ml. inside (mid_point (?F ! ml)) (?P ! i)) [0..<length ?F])))
                    ?js)"
    unfolding ops by (simp add: anomaly_marks_def panel_fault_marks_def)
  have c3: "\<forall>k < length ?js.
            ops (arrays ?res ! (img_detection ?res + 1 + k)) =
              Rectangle (corner1 (?P ! (?js ! k))) (corner2 (?P ! (?js ! k))) (0, 255, 0) 5 #
              module_marks (key_s_module fr (?js ! k)) (?P ! (?js ! k)) ?M [0..<length ?M] @
              concat (map (\<lambda>ml. fault_marks (?P ! (?js ! k)) (?F ! ml) (?pr ! ml))
                        (filter (\<lambda>ml. inside (mid_point (?F ! ml)) (?P ! (?js ! k))) [0..<length ?F]))"
  proof (intro allI impI)
    fix k
    assume "k < length ?js"
    from disp [OF this] show "ops (arrays ?res ! (img_detection ?res + 1 + k)) =
              Rectangle (corner1 (?P ! (?js ! k))) (corner2 (?P ! (?js ! k))) (0, 255, 0) 5 #
              module_marks (key_s_module fr (?js ! k)) (?P ! (?js ! k)) ?M [0..<length ?M] @
              concat (map (\<lambda>ml. fault_marks (?P ! (?js ! k)) (?F ! ml) (?pr ! ml))
                        (filter (\<lambda>ml. inside (mid_point (?F ! ml)) (?P ! (?js ! k))) [0..<length ?F]))"
      by (simp only: display_array_def panel_fault_marks_def image.simps)
  qed
  have c4: "(\<forall>i. \<not> key_s_panel fr i) \<longrightarrow> ?js = [0..<length ?P]"
    by (simp add: reached_no_key)
  have c5: "\<forall>i. (\<forall>m. \<not> key_s_module fr i m) \<longrightarrow>
            module_marks (key_s_module fr i) (?P ! i) ?M [0..<length ?M] =
              map (\<lambda>m. Rectangle (corner1 (?M ! m)) (corner2 (?M ! m)) (255, 0, 0) 2)
                (filter (\<lambda>m. inside (mid_point (?M ! m)) (?P ! i)) [0..<length ?M])"
    by (simp add: module_marks_no_key)
  have c6: "\<forall>i. i \<in> set ?js \<longleftrightarrow> i < length ?P \<and> (\<forall>j<i. \<not> key_s_panel fr j)"
    by (simp add: reached_upt0_iff)
  have c7: "\<forall>i m. m < length ?M \<and> inside (mid_point (?M ! m)) (?P ! i) \<and>
              (\<forall>m'<m. inside (mid_point (?M ! m')) (?P ! i) \<longrightarrow> \<not> key_s_module fr i m') \<longrightarrow>
            Rectangle (corner1 (?M ! m)) (corner2 (?M ! m)) (255, 0, 0) 2
              \<in> set (module_marks (key_s_module fr i) (?P ! i) ?M [0..<length ?M])"
  proof (intro allI impI)
    fix i m
    assume h: "m < length ?M \<and> inside (mid_point (?M ! m)) (?P ! i) \<and>
              (\<forall>m'<m. inside (mid_point (?M ! m')) (?P ! i) \<longrightarrow> \<not> key_s_module fr i m')"
    then have "\<forall>m'. 0 \<le> m' \<and> m' < m \<and> inside (mid_point (?M ! m')) (?P ! i) \<longrightarrow>
                 \<not> key_s_module fr i m'"
      by simp
    with h show "Rectangle (corner1 (?M ! m)) (corner2 (?M ! m)) (255, 0, 0) 2
              \<in> set (module_marks (key_s_module fr i) (?P ! i) ?M [0..<length ?M])"
      by (intro module_marks_upt_mem) simp_all
  qed
  have c8: "\<forall>i x. x \<in> set (module_marks (key_s_module fr i) (?P ! i) ?M [0..<length ?M]) \<longrightarrow>
            (\<exists>m<length ?M. inside (mid_point (?M ! m)) (?P ! i) \<and>
               (\<forall>m'<m. inside (mid_point (?M ! m')) (?P ! i) \<longrightarrow> \<not> key_s_module fr i m') \<and>
               x = Rectangle (corner1 (?M ! m)) (corner2 (?M ! m)) (255, 0, 0) 2)"
  proof (intro allI impI)
    fix i x
    assume "x \<in> set (module_marks (key_s_module fr i) (?P ! i) ?M [0..<length ?M])"
    from module_marks_upt_only [OF this]
    obtain m where m: "m < length ?M" "inside (mid_point (?M ! m)) (?P ! i)"
      "\<forall>m'. 0 \<le> m' \<and> m' < m \<and> inside (mid_point (?M ! m')) (?P ! i) \<longrightarrow> \<not> key_s_module fr i m'"
      "x = Rectangle (corner1 (?M ! m)) (corner2 (?M ! m)) (255, 0, 0) 2"
      by blast
    then show "\<exists>m<length ?M. inside (mid_point (?M ! m)) (?P ! i) \<and>
               (\<forall>m'<m. inside (mid_point (?M ! m')) (?P ! i) \<longrightarrow> \<not> key_s_module fr i m') \<and>
               x = Rectangle (corner1 (?M ! m)) (corner2 (?M ! m)) (255, 0, 0) 2"
      by (intro exI [of _ m]) simp
  qed
  show ?thesis
    unfolding run Let_def
    by (intro exI [of _ ?res] conjI refl c1 len c3 c4 c5 c6 c7 c8)
qed

lemma overlap_rows:
  "panel_rows overlap_env ex_cfg ex_frame =
     [\<lparr>xyxy = [0, 0, 100, 100], conf = 9 / 10, cls = 0\<rparr>,
      \<lparr>xyxy = [0, 0, 200, 200], conf = 9 / 10, cls = 0\<rparr>]"
  "fault_rows overlap_env ex_cfg ex_frame = [\<lparr>xyxy = [40, 40, 60, 60], conf = 833 / 1024, cls = 0\<rparr>]"
  "module_rows overlap_env ex_cfg ex_frame = [\<lparr>xyxy = [10, 10, 20, 20], conf = 7 / 8, cls = 0\<rparr>]"
  by (simp_all add: overlap_env_def ex_env_rows raw_conf_ex_row rescale_ex_row)

lemma overlap_result:
  "run_frame overlap_env ex_cfg ex_frame ex_tm [] =
     Inr (frame_value overlap_env ex_cfg ex_frame (Raster 7) [] (frame_timing ex_frame ex_tm))"
  "pred_full_solar_modules (frame_value overlap_env ex_cfg ex_frame (Raster 7) [] t) =
     [[0, 0, 100, 100], [0, 0, 200, 200]]"
  "pred_fault_solar_modules (frame_value overlap_env ex_cfg ex_frame (Raster 7) [] t) = [[40, 40, 60, 60]]"
  "prob_fault_solar_modules (frame_value overlap_env ex_cfg ex_frame (Raster 7) [] t) = [833 / 1024]"
  "pred_single_solar_modules (frame_value overlap_env ex_cfg ex_frame (Raster 7) [] t) = [[10, 10, 20, 20]]"
  "img_detection (frame_value overlap_env ex_cfg ex_frame (Raster 7) [] t) = 4"
      apply (simp add: overlap_env_def ex_env_run)
     apply (simp_all add: frame_value_fields overlap_rows boxes_of_def probs_of_def py_sort_def ex_flags)
  done

lemma inside_both:
  "inside (mid_point [40, 40, 60, 60]) [0, 0, 100, 100]"
  "inside (mid_point [40, 40, 60, 60]) [0, 0, 200, 200]"
  "inside (mid_point [10, 10, 20, 20]) [0, 0, 100, 100]"
  "inside (mid_point [10, 10, 20, 20]) [0, 0, 200, 200]"
  by (simp_all add: inside_mid_point)

theorem first_panel_only_counterexample:
  "pred_full_solar_modules (projr (run_frame overlap_env ex_cfg ex_frame ex_tm [])) =
     [[0, 0, 100, 100], [0, 0, 200, 200]] \<and>
   ops (anomaly_image (projr (run_frame overlap_env ex_cfg ex_frame ex_tm []))) =
     [Rectangle (0, 0) (100, 100) (0, 0, 255) (- 1), Rectangle (40, 40) (60, 60) (255, 255, 0) 5,
      PutText ''81.34%'' (10, 39) (255, 0, 0) 2,
      Rectangle (0, 0) (200, 200) (0, 0, 255) (- 1), Rectangle (40, 40) (60, 60) (255, 255, 0) 5,
      PutText ''81.34%'' (10, 39) (255, 0, 0) 2] \<and>
   ops (arrays (projr (run_frame overlap_env ex_cfg ex_frame ex_tm [])) ! 6) =
     [Rectangle (0, 0) (200, 200) (0, 255, 0) 5, Rectangle (10, 10) (20, 20) (255, 0, 0) 2,
      Rectangle (0, 0) (200, 200) (0, 0, 255) (- 1), Rectangle (40, 40) (60, 60) (255, 255, 0) 5,
      PutText ''81.34%'' (10, 39) (255, 0, 0) 2]"
proof -
  let ?res = "frame_value overlap_env ex_cfg ex_frame (Raster 7) [] (frame_timing ex_frame ex_tm)"
  have a: "ops (anomaly_image ?res) =
     [Rectangle (0, 0) (100, 100) (0, 0, 255) (- 1), Rectangle (40, 40) (60, 60) (255, 255, 0) 5,
      PutText ''81.34%'' (10, 39) (255, 0, 0) 2,
      Rectangle (0, 0) (200, 200) (0, 0, 255) (- 1), Rectangle (40, 40) (60, 60) (255, 255, 0) 5,
      PutText ''81.34%'' (10, 39) (255, 0, 0) 2]"
    apply (simp add: anomaly_image_def frame_value_fields frame_arrays_nth)
    apply (simp add: ex_flags overlap_rows boxes_of_def probs_of_def py_sort_def anomaly_marks_def
        panel_fault_marks_def fault_marks_def label_8134 inside_both corner1_def corner2_def)
    done
  have js: "reached (key_s_panel ex_frame)
              [0..<length (py_sort (boxes_of (panel_rows overlap_env ex_cfg ex_frame)))] = [0, 1]"
    by (simp add: ex_flags overlap_rows boxes_of_def py_sort_def upt_conv_Cons)
  have "arrays ?res ! (4 + 1 + 1) =
          display_array ex_frame (Raster 7) [[0, 0, 100, 100], [0, 0, 200, 200]] [[10, 10, 20, 20]]
            [[40, 40, 60, 60]] [833 / 1024] 1"
    using frame_arrays_display [of 1 ex_frame overlap_env ex_cfg "Raster 7"]
    by (simp add: js frame_value_fields ex_flags overlap_rows boxes_of_def probs_of_def py_sort_def)
  then have d: "ops (arrays ?res ! 6) =
     [Rectangle (0, 0) (200, 200) (0, 255, 0) 5, Rectangle (10, 10) (20, 20) (255, 0, 0) 2,
      Rectangle (0, 0) (200, 200) (0, 0, 255) (- 1), Rectangle (40, 40) (60, 60) (255, 255, 0) 5,
      PutText ''81.34%'' (10, 39) (255, 0, 0) 2]"
    by (simp add: display_array_def panel_fault_marks_def fault_marks_def label_8134 inside_both
        corner1_def corner2_def ex_flags)
  show ?thesis
    by (simp add: overlap_result a d)
qed

theorem marked_under_every_containing_panel_witness:
  "imread overlap_env (path ex_frame) = Some (Raster 7) \<and>
   (\<forall>i. \<not> key_s_panel ex_frame i) \<and>
   reached (key_s_panel ex_frame) [0..<2] = [0, 1] \<and>
   ops (anomaly_image (projr (run_frame overlap_env ex_cfg ex_frame ex_tm []))) =
     fault_marks [0, 0, 100, 100] [40, 40, 60, 60] (833 / 1024) @
     fault_marks [0, 0, 200, 200] [40, 40, 60, 60] (833 / 1024) \<and>
   length (arrays (projr (run_frame overlap_env ex_cfg ex_frame ex_tm []))) = 7 \<and>
   pred_single_solar_modules (projr (run_frame overlap_env ex_cfg ex_frame ex_tm [])) = [[10, 10, 20, 20]] \<and>
   inside (mid_point [10, 10, 20, 20]) [0, 0, 200, 200] \<and>
   Rectangle (10, 10) (20, 20) (255, 0, 0) 2
     \<in> set (module_marks (key_s_module ex_frame 1) [0, 0, 200, 200] [[10, 10, 20, 20]] [0..<1])"
proof -
  have h: "imread overlap_env (path ex_frame) = Some (Raster 7)"
    by (simp add: overlap_env_def ex_env_def ex_frame_def)
  have js: "reached (key_s_panel ex_frame) [0..<2] = [0, 1]"
    by (simp add: ex_flags upt_conv_Cons)
  have two: "[0..<Suc (Suc 0)] = [0, 1]" "[0..<Suc 0] = [0]"
    by (simp_all add: upt_conv_Cons)
  from marked_under_every_containing_panel [OF h, of ex_cfg ex_tm "[]"]
  have "\<exists>res. run_frame overlap_env ex_cfg ex_frame ex_tm [] = Inr res \<and>
      ops (anomaly_image res) =
           concat (map (\<lambda>i. concat (map (\<lambda>ml. fault_marks (pred_full_solar_modules res ! i)
                      (pred_fault_solar_modules res ! ml) (prob_fault_solar_modules res ! ml))
                 (filter (\<lambda>ml. inside (mid_point (pred_fault_solar_modules res ! ml))
                                 (pred_full_solar_modules res ! i))
                    [0..<length (pred_fault_solar_modules res)])))
              (reached (key_s_panel ex_frame) [0..<length (pred_full_solar_modules res)])) \<and>
      length (arrays res) = img_detection res + 1 +
              length (reached (key_s_panel ex_frame) [0..<length (pred_full_solar_modules res)]) \<and>
      (\<forall>i m. m < length (pred_single_solar_modules res) \<and>
              inside (mid_point (pred_single_solar_modules res ! m)) (pred_full_solar_modules res ! i) \<and>
              (\<forall>m'<m. inside (mid_point (pred_single_solar_modules res ! m')) (pred_full_solar_modules res ! i) \<longrightarrow>
                 \<not> key_s_module ex_frame i m') \<longrightarrow>
            Rectangle (corner1 (pred_single_solar_modules res ! m)) (corner2 (pred_single_solar_modules res ! m))
                (255, 0, 0) 2
              \<in> set (module_marks (key_s_module ex_frame i) (pred_full_solar_modules res ! i)
                      (pred_single_solar_modules res) [0..<length (pred_single_solar_modules res)]))"
    unfolding Let_def by (elim exE conjE) (intro exI conjI; assumption)
  then obtain res where run: "run_frame overlap_env ex_cfg ex_frame ex_tm [] = Inr res"
    and marks: "ops (anomaly_image res) =
           concat (map (\<lambda>i. concat (map (\<lambda>ml. fault_marks (pred_full_solar_modules res ! i)
                      (pred_fault_solar_modules res ! ml) (prob_fault_solar_modules res ! ml))
                 (filter (\<lambda>ml. inside (mid_point (pred_fault_solar_modules res ! ml))
                                 (pred_full_solar_modules res ! i))
                    [0..<length (pred_fault_solar_modules res)])))
              (reached (key_s_panel ex_frame) [0..<length (pred_full_solar_modules res)]))"
    and len: "length (arrays res) = img_detection res + 1 +
              length (reached (key_s_panel ex_frame) [0..<length (pred_full_solar_modules res)])"
    and mods: "\<forall>i m. m < length (pred_single_solar_modules res) \<and>
              inside (mid_point (pred_single_solar_modules res ! m)) (pred_full_solar_modules res ! i) \<and>
              (\<forall>m'<m. inside (mid_point (pred_single_solar_modules res ! m')) (pred_full_solar_modules res ! i) \<longrightarrow>
                 \<not> key_s_module ex_frame i m') \<longrightarrow>
            Rectangle (corner1 (pred_single_solar_modules res ! m)) (corner2 (pred_single_solar_modules res ! m))
                (255, 0, 0) 2
              \<in> set (module_marks (key_s_module ex_frame i) (pred_full_solar_modules res ! i)
                      (pred_single_solar_modules res) [0..<length (pred_single_solar_modules res)])"
    by (elim exE conjE)
  have res: "res = frame_value overlap_env ex_cfg ex_frame (Raster 7) [] (frame_timing ex_frame ex_tm)"
    using run by (simp add: overlap_result)
  have "ops (anomaly_image res) =
     fault_marks [0, 0, 100, 100] [40, 40, 60, 60] (833 / 1024) @
     fault_marks [0, 0, 200, 200] [40, 40, 60, 60] (833 / 1024)"
    using marks by (simp add: res overlap_result ex_flags two inside_both)
  moreover have "length (arrays res) = 7"
    using len by (simp add: res overlap_result ex_flags two)
  moreover have "Rectangle (10, 10) (20, 20) (255, 0, 0) 2
     \<in> set (module_marks (key_s_module ex_frame 1) [0, 0, 200, 200] [[10, 10, 20, 20]] [0..<1])"
    using mods [rule_format, of 0 1]
    by (simp add: res overlap_result inside_both corner1_def corner2_def)
  ultimately show ?thesis
    using h js by (simp add: run res overlap_result inside_both ex_flags)
qed

section \<open>The saved module image and the order of the lists\<close>

lemma saved_names_distinct:
  "b @ ''_panel_block_detection'' @ x \<noteq> b @ ''_anomaly_detection'' @ x"
  "b @ ''_panel_block_detection'' @ x \<noteq> b @ ''_panel_detection'' @ x"
  "b @ ''_panel_detection'' @ x \<noteq> b @ ''_anomaly_detection'' @ x"
  by simp_all

lemma map_of_save_results:
  assumes "save_img cfg"
  shows "map_of (save_results cfg fr s a1 a0 d fs) (Top (base_name fr @ ''_panel_block_detection'' @ ext fr)) =
           Some (Picture (s ! a0))"
    and "map_of (save_results cfg fr s a1 a0 d fs) (Top (base_name fr @ ''_panel_detection'' @ ext fr)) =
           Some (Picture (s ! a1))"
    and "map_of (save_results cfg fr s a1 a0 d fs) (Top (base_name fr @ ''_anomaly_detection'' @ ext fr)) =
           Some (Picture (s ! d))"
  using assms by (simp_all add: save_results_def imwrite_def update_conv')

lemma xyxy_rescale_row: "box4 (rescale_row sc r) = xyxy (rescale_row sc r)"
  by (simp add: rescale_row_def box4_def split: prod.splits)

lemma boxes_of_rescale:
  "boxes_of (rescale sc det) = map xyxy (rev (rescale sc det))"
  using xyxy_rescale_row [of sc] by (simp add: boxes_of_def rescale_def rev_map box4_def)

text \<open>
  C3, as amended. The image saved under \<open>_panel_block_detection\<close> is \<open>im0\<close> of the module
  pass: a copy of the frame on which \<open>annotator.box_label\<close> has drawn every module detection
  (lines 300-303), whether or not a panel box contains its midpoint. The outlines of the
  contained modules (line 327) go to the array read for the panel, which is shown and not
  saved.
\<close>

theorem module_image_has_every_module:
  assumes "imread e (path fr) = Some r" and "save_img cfg"
  shows "\<exists>res. run_frame e cfg fr tm fs = Inr res \<and>
           map_of (written res) (Top (base_name fr @ ''_panel_block_detection'' @ ext fr)) =
             Some (Picture (module_image res)) \<and>
           module_image res =
             \<lparr>base = im0s fr,
              ops = map (\<lambda>r. BoxLabel (xyxy r) (conf r) (cls r)) (rev (module_rows e cfg fr))\<rparr> \<and>
           (\<forall>b \<in> set (pred_single_solar_modules res).
              \<exists>q c. BoxLabel b q c \<in> set (ops (module_image res)))"
proof -
  let ?res = "frame_value e cfg fr r fs (frame_timing fr tm)"
  have run: "run_frame e cfg fr tm fs = Inr ?res"
    by (rule run_frame_Some [OF assms(1)])
  have img: "module_image ?res =
             \<lparr>base = im0s fr,
              ops = map (\<lambda>r. BoxLabel (xyxy r) (conf r) (cls r)) (rev (module_rows e cfg fr))\<rparr>"
    using assms(2) by (simp add: module_image_def frame_value_fields frame_arrays_nth labels_of_def draws_def)
  have saved: "map_of (written ?res) (Top (base_name fr @ ''_panel_block_detection'' @ ext fr)) =
             Some (Picture (module_image ?res))"
    using map_of_save_results(1) [OF assms(2), of fr "frame_arrays e cfg fr r" 0
        "if save_crop cfg then 4 else 2" "if save_crop cfg then 7 else 4" "passes_disk e cfg fr fs"]
    by (simp add: frame_value_def module_image_def)
  have all: "\<exists>q c. BoxLabel b q c \<in> set (ops (module_image ?res))"
    if "b \<in> set (pred_single_solar_modules ?res)" for b
  proof -
    from that have "b \<in> set (boxes_of (module_rows e cfg fr))"
      by (simp add: frame_value_fields py_sort_def)
    then obtain x where x: "x \<in> set (module_rows e cfg fr)" "b = xyxy x"
      unfolding module_rows_def boxes_of_rescale by auto
    then have "BoxLabel b (conf x) (cls x) \<in> set (ops (module_image ?res))"
      unfolding img by force
    then show ?thesis by blast
  qed
  show ?thesis
    unfolding run using img saved all by blast
qed

lemma lonely_rows:
  "panel_rows lonely_env ex_cfg ex_frame = []"
  "fault_rows lonely_env ex_cfg ex_frame = []"
  "module_rows lonely_env ex_cfg ex_frame = [\<lparr>xyxy = [10, 10, 20, 20], conf = 7 / 8, cls = 0\<rparr>]"
  by (simp_all add: lonely_env_def ex_env_rows raw_conf_ex_row rescale_ex_row)

lemma lonely_result:
  "run_frame lonely_env ex_cfg ex_frame ex_tm [] =
     Inr (frame_value lonely_env ex_cfg ex_frame (Raster 7) [] (frame_timing ex_frame ex_tm))"
  "pred_full_solar_modules (frame_value lonely_env ex_cfg ex_frame (Raster 7) [] t) = []"
  "pred_single_solar_modules (frame_value lonely_env ex_cfg ex_frame (Raster 7) [] t) = [[10, 10, 20, 20]]"
   apply (simp add: lonely_env_def ex_env_run)
   apply (simp_all add: frame_value_fields lonely_rows boxes_of_def py_sort_def)
  done

lemma ex_module_image:
  "module_image (frame_value e ex_cfg ex_frame r [] t) =
     \<lparr>base = Raster 7,
      ops = map (\<lambda>r. BoxLabel (xyxy r) (conf r) (cls r)) (rev (module_rows e ex_cfg ex_frame))\<rparr>"
  apply (simp add: module_image_def frame_value_fields frame_arrays_nth)
  apply (simp add: ex_flags labels_of_def)
  done

lemma ex_written:
  "map_of (written (frame_value e ex_cfg ex_frame r [] t)) (Top ''a_panel_block_detection.jpg'') =
     Some (Picture (module_image (frame_value e ex_cfg ex_frame r [] t)))"
  using map_of_save_results(1) [of ex_cfg ex_frame "frame_arrays e ex_cfg ex_frame r" 0
        "if save_crop ex_cfg then 4 else 2" "if save_crop ex_cfg then 7 else 4"
        "passes_disk e ex_cfg ex_frame []"]
  by (simp add: frame_value_def module_image_def ex_flags)

theorem module_outside_panels_counterexample:
  "pred_full_solar_modules (projr (run_frame lonely_env ex_cfg ex_frame ex_tm [])) = [] \<and>
   pred_single_solar_modules (projr (run_frame lonely_env ex_cfg ex_frame ex_tm [])) = [[10, 10, 20, 20]] \<and>
   map_of (written (projr (run_frame lonely_env ex_cfg ex_frame ex_tm [])))
       (Top ''a_panel_block_detection.jpg'') =
     Some (Picture \<lparr>base = Raster 7, ops = [BoxLabel [10, 10, 20, 20] (7 / 8) 0]\<rparr>)"
  by (simp add: lonely_result ex_written ex_module_image lonely_rows)

theorem module_image_has_every_module_witness:
  "imread single_env (path ex_frame) = Some (Raster 7) \<and> save_img ex_cfg \<and>
   [10, 10, 20, 20] \<in> set (pred_single_solar_modules (projr (run_frame single_env ex_cfg ex_frame ex_tm []))) \<and>
   (\<exists>q c. BoxLabel [10, 10, 20, 20] q c
      \<in> set (ops (module_image (projr (run_frame single_env ex_cfg ex_frame ex_tm []))))) \<and>
   map_of (written (projr (run_frame single_env ex_cfg ex_frame ex_tm [])))
       (Top (base_name ex_frame @ ''_panel_block_detection'' @ ext ex_frame)) =
     Some (Picture \<lparr>base = Raster 7, ops = [BoxLabel [10, 10, 20, 20] (7 / 8) 0]\<rparr>)"
proof -
  have h: "imread single_env (path ex_frame) = Some (Raster 7)"
    by (simp add: single_env_def ex_env_def ex_frame_def)
  have g: "save_img ex_cfg"
    by (simp add: ex_flags)
  from module_image_has_every_module [OF h g, of ex_tm "[]"]
  obtain res where run: "run_frame single_env ex_cfg ex_frame ex_tm [] = Inr res"
    and saved: "map_of (written res) (Top (base_name ex_frame @ ''_panel_block_detection'' @ ext ex_frame)) =
             Some (Picture (module_image res))"
    and img: "module_image res =
             \<lparr>base = im0s ex_frame,
              ops = map (\<lambda>r. BoxLabel (xyxy r) (conf r) (cls r)) (rev (module_rows single_env ex_cfg ex_frame))\<rparr>"
    and all: "\<And>b. b \<in> set (pred_single_solar_modules res) \<Longrightarrow>
                \<exists>q c. BoxLabel b q c \<in> set (ops (module_image res))"
    by blast
  have res: "res = frame_value single_env ex_cfg ex_frame (Raster 7) [] (frame_timing ex_frame ex_tm)"
    using run by (simp add: single_result)
  have mem: "[10, 10, 20, 20] \<in> set (pred_single_solar_modules res)"
    by (simp add: res single_result)
  have img': "module_image res = \<lparr>base = Raster 7, ops = [BoxLabel [10, 10, 20, 20] (7 / 8) 0]\<rparr>"
    using img by (simp add: single_rows ex_flags)
  have ex: "\<exists>q c. BoxLabel [10, 10, 20, 20] q c \<in> set (ops (module_image res))"
    by (rule all [OF mem])
  have shown: "map_of (written res) (Top (base_name ex_frame @ ''_panel_block_detection'' @ ext ex_frame)) =
     Some (Picture \<lparr>base = Raster 7, ops = [BoxLabel [10, 10, 20, 20] (7 / 8) 0]\<rparr>)"
    using saved by (simp only: img')
  show ?thesis
    unfolding run sum.sel using h g mem ex shown by blast
qed

lemma box_le_iff:
  "[a, b, c, d] \<le> [a', b', c', d'] \<longleftrightarrow>
     a < a' \<or> a = a' \<and> (b < b' \<or> b = b' \<and> (c < c' \<or> c = c' \<and> d \<le> d'))" for a :: int
  by (auto simp add: list_le_def)

lemma py_sort_props:
  "sorted (py_sort bs)" "mset (py_sort bs) = mset bs"
  "filter (\<lambda>b. b = k) (py_sort bs) = filter (\<lambda>b. b = k) bs"
  using sort_key_stable [of "\<lambda>b. b" k bs] by (simp_all add: py_sort_def)

text \<open>
  C4, as amended. Before the correlation, lines 307-308 sort the panel list and the module
  list in ascending lexicographic order of \<open>[x1, y1, x2, y2]\<close>, with a stable sort. The fault
  list is not sorted: it stays in the order it was built, the reverse of the detector's
  emission order, in step with its confidence list.
\<close>

theorem panel_and_module_lists_sorted:
  assumes "imread e (path fr) = Some r"
  shows "\<exists>res. run_frame e cfg fr tm fs = Inr res \<and>
           sorted (pred_full_solar_modules res) \<and>
           mset (pred_full_solar_modules res) = mset (boxes_of (panel_rows e cfg fr)) \<and>
           (\<forall>k. filter (\<lambda>b. b = k) (pred_full_solar_modules res) =
                filter (\<lambda>b. b = k) (boxes_of (panel_rows e cfg fr))) \<and>
           sorted (pred_single_solar_modules res) \<and>
           mset (pred_single_solar_modules res) = mset (boxes_of (module_rows e cfg fr)) \<and>
           (\<forall>k. filter (\<lambda>b. b = k) (pred_single_solar_modules res) =
                filter (\<lambda>b. b = k) (boxes_of (module_rows e cfg fr))) \<and>
           pred_fault_solar_modules res = map xyxy (rev (fault_rows e cfg fr)) \<and>
           prob_fault_solar_modules res = map conf (rev (fault_rows e cfg fr)) \<and>
           (\<forall>a b c d a' b' c' d' :: int.
              [a, b, c, d] \<le> [a', b', c', d'] \<longleftrightarrow>
                a < a' \<or> a = a' \<and> (b < b' \<or> b = b' \<and> (c < c' \<or> c = c' \<and> d \<le> d')))"
proof -
  let ?res = "frame_value e cfg fr r fs (frame_timing fr tm)"
  have run: "run_frame e cfg fr tm fs = Inr ?res"
    by (rule run_frame_Some [OF assms])
  have faults: "pred_fault_solar_modules ?res = map xyxy (rev (fault_rows e cfg fr))"
    unfolding frame_value_fields fault_rows_def by (rule boxes_of_rescale)
  have probs: "prob_fault_solar_modules ?res = map conf (rev (fault_rows e cfg fr))"
    by (simp add: frame_value_fields probs_of_def)
  show ?thesis
    unfolding run using faults probs box_le_iff
    by (simp add: frame_value_fields py_sort_props)
qed

lemma two_faults_rows:
  "panel_rows two_faults_env ex_cfg ex_frame = [\<lparr>xyxy = [0, 0, 200, 200], conf = 9 / 10, cls = 0\<rparr>]"
  "fault_rows two_faults_env ex_cfg ex_frame =
     [\<lparr>xyxy = [40, 40, 60, 60], conf = 3 / 4, cls = 0\<rparr>,
      \<lparr>xyxy = [150, 150, 160, 160], conf = 1 / 2, cls = 0\<rparr>]"
  "module_rows two_faults_env ex_cfg ex_frame = []"
  by (simp_all add: two_faults_env_def ex_env_rows raw_conf_ex_row rescale_ex_row)

theorem fault_list_sorted_counterexample:
  "pred_fault_solar_modules (projr (run_frame two_faults_env ex_cfg ex_frame ex_tm [])) =
     [[150, 150, 160, 160], [40, 40, 60, 60]] \<and>
   \<not> sorted (pred_fault_solar_modules (projr (run_frame two_faults_env ex_cfg ex_frame ex_tm [])))"
proof -
  have "run_frame two_faults_env ex_cfg ex_frame ex_tm [] =
     Inr (frame_value two_faults_env ex_cfg ex_frame (Raster 7) [] (frame_timing ex_frame ex_tm))"
    by (simp add: two_faults_env_def ex_env_run)
  then show ?thesis
    by (simp add: frame_value_fields two_faults_rows boxes_of_def)
qed

theorem panel_and_module_lists_sorted_witness:
  "imread overlap_env (path ex_frame) = Some (Raster 7) \<and>
   boxes_of (panel_rows overlap_env ex_cfg ex_frame) = [[0, 0, 200, 200], [0, 0, 100, 100]] \<and>
   pred_full_solar_modules (projr (run_frame overlap_env ex_cfg ex_frame ex_tm [])) =
     [[0, 0, 100, 100], [0, 0, 200, 200]] \<and>
   sorted (pred_full_solar_modules (projr (run_frame overlap_env ex_cfg ex_frame ex_tm []))) \<and>
   sorted (pred_single_solar_modules (projr (run_frame overlap_env ex_cfg ex_frame ex_tm []))) \<and>
   pred_fault_solar_modules (projr (run_frame overlap_env ex_cfg ex_frame ex_tm [])) = [[40, 40, 60, 60]]"
proof -
  have h: "imread overlap_env (path ex_frame) = Some (Raster 7)"
    by (simp add: overlap_env_def ex_env_def ex_frame_def)
  from panel_and_module_lists_sorted [OF h, of ex_cfg ex_tm "[]"]
  obtain res where run: "run_frame overlap_env ex_cfg ex_frame ex_tm [] = Inr res"
    and s1: "sorted (pred_full_solar_modules res)"
    and s2: "sorted (pred_single_solar_modules res)"
    and f: "pred_fault_solar_modules res = map xyxy (rev (fault_rows overlap_env ex_cfg ex_frame))"
    by blast
  have res: "res = frame_value overlap_env ex_cfg ex_frame (Raster 7) [] (frame_timing ex_frame ex_tm)"
    using run by (simp add: overlap_result)
  have b: "boxes_of (panel_rows overlap_env ex_cfg ex_frame) = [[0, 0, 200, 200], [0, 0, 100, 100]]"
    by (simp add: overlap_rows boxes_of_def)
  have p: "pred_full_solar_modules res = [[0, 0, 100, 100], [0, 0, 200, 200]]"
    by (simp add: res overlap_result)
  have f': "pred_fault_solar_modules res = [[40, 40, 60, 60]]"
    using f by (simp add: overlap_rows)
  show ?thesis
    unfolding run sum.sel using h b p s1 s2 f' by blast
qed

section \<open>The arrays behind the images\<close>

lemma draw_other: "a \<noteq> b \<Longrightarrow> draw a d s ! b = s ! b"
  by (simp add: draw_def)

text \<open>
  C6. Each layer image is an array of its own, started from its own copy of the source raster:
  \<open>im1\<close> and \<open>im0\<close>, the panel and module images, from \<open>im0s.copy()\<close> of their passes, and
  \<open>img_detection\<close>, the anomaly image, from \<open>cv2.imread(path).copy()\<close>; every array made
  after them comes from a fresh \<open>cv2.imread(path)\<close>. They sit at different addresses, a
  drawing call changes the array at its own address only, and so each image carries the
  drawings of its own layer and no other.
\<close>

theorem saved_images_are_separate_arrays:
  assumes "imread e (path fr) = Some r"
  shows "\<exists>res. run_frame e cfg fr tm fs = Inr res \<and>
           im1 res < im0 res \<and> im0 res < img_detection res \<and>
           img_detection res < length (arrays res) \<and>
           panel_image res = \<lparr>base = im0s fr, ops = labels_of cfg (rev (panel_rows e cfg fr))\<rparr> \<and>
           module_image res = \<lparr>base = im0s fr, ops = labels_of cfg (rev (module_rows e cfg fr))\<rparr> \<and>
           anomaly_image res =
             \<lparr>base = r,
              ops = anomaly_marks fr (pred_full_solar_modules res) (pred_fault_solar_modules res)
                      (prob_fault_solar_modules res) [0..<length (pred_full_solar_modules res)]\<rparr> \<and>
           (\<forall>k. img_detection res < k \<and> k < length (arrays res) \<longrightarrow> base (arrays res ! k) = r) \<and>
           (\<forall>a b d s. a \<noteq> b \<longrightarrow> draw a d s ! b = s ! b)"
proof -
  let ?res = "frame_value e cfg fr r fs (frame_timing fr tm)"
  let ?js = "reached (key_s_panel fr) [0..<length (py_sort (boxes_of (panel_rows e cfg fr)))]"
  let ?d = "if save_crop cfg then 7 else 4 :: nat"
  have run: "run_frame e cfg fr tm fs = Inr ?res"
    by (rule run_frame_Some [OF assms])
  have p: "panel_image ?res = \<lparr>base = im0s fr, ops = labels_of cfg (rev (panel_rows e cfg fr))\<rparr>"
    by (simp add: panel_image_def frame_value_fields frame_arrays_nth)
  have m: "module_image ?res = \<lparr>base = im0s fr, ops = labels_of cfg (rev (module_rows e cfg fr))\<rparr>"
    by (simp add: module_image_def frame_value_fields frame_arrays_nth)
  have a: "anomaly_image ?res =
             \<lparr>base = r,
              ops = anomaly_marks fr (pred_full_solar_modules ?res) (pred_fault_solar_modules ?res)
                      (prob_fault_solar_modules ?res) [0..<length (pred_full_solar_modules ?res)]\<rparr>"
    by (simp add: anomaly_image_def frame_value_fields frame_arrays_nth)
  have idx: "im1 ?res < im0 ?res" "im0 ?res < img_detection ?res"
    "img_detection ?res < length (arrays ?res)"
    by (simp_all add: frame_value_fields length_frame_arrays)
  have fresh: "base (arrays ?res ! k) = r"
    if k: "img_detection ?res < k \<and> k < length (arrays ?res)" for k
  proof -
    define j where "j = k - (?d + 1)"
    have kj: "k = ?d + 1 + j" and j: "j < length ?js"
      using k by (auto simp add: j_def frame_value_fields length_frame_arrays split: if_splits)
    have "frame_arrays e cfg fr r ! (?d + 1 + j) =
            display_array fr r (py_sort (boxes_of (panel_rows e cfg fr)))
              (py_sort (boxes_of (module_rows e cfg fr))) (boxes_of (fault_rows e cfg fr))
              (probs_of (fault_rows e cfg fr)) (?js ! j)"
      by (rule frame_arrays_display [OF j])
    then show ?thesis
      unfolding frame_value_fields kj by (simp only: display_array_def image.simps)
  qed
  show ?thesis
    unfolding run using p m a idx fresh draw_other by blast
qed

lemma single_display:
  "ops (arrays (frame_value single_env ex_cfg ex_frame (Raster 7) [] t) ! 5) =
     [Rectangle (0, 0) (100, 100) (0, 255, 0) 5, Rectangle (10, 10) (20, 20) (255, 0, 0) 2,
      Rectangle (0, 0) (100, 100) (0, 0, 255) (- 1), Rectangle (40, 40) (60, 60) (255, 255, 0) 5,
      PutText ''81.34%'' (10, 39) (255, 0, 0) 2]"
  "length (arrays (frame_value single_env ex_cfg ex_frame (Raster 7) [] t)) = 6"
proof -
  have js: "reached (key_s_panel ex_frame)
              [0..<length (py_sort (boxes_of (panel_rows single_env ex_cfg ex_frame)))] = [0]"
    by (simp add: ex_flags single_rows boxes_of_def py_sort_def)
  have "arrays (frame_value single_env ex_cfg ex_frame (Raster 7) [] t) ! (4 + 1 + 0) =
          display_array ex_frame (Raster 7) [[0, 0, 100, 100]] [[10, 10, 20, 20]]
            [[40, 40, 60, 60]] [833 / 1024] 0"
    using frame_arrays_display [of 0 ex_frame single_env ex_cfg "Raster 7"]
    by (simp add: js frame_value_fields ex_flags single_rows boxes_of_def probs_of_def py_sort_def)
  then show "ops (arrays (frame_value single_env ex_cfg ex_frame (Raster 7) [] t) ! 5) =
     [Rectangle (0, 0) (100, 100) (0, 255, 0) 5, Rectangle (10, 10) (20, 20) (255, 0, 0) 2,
      Rectangle (0, 0) (100, 100) (0, 0, 255) (- 1), Rectangle (40, 40) (60, 60) (255, 255, 0) 5,
      PutText ''81.34%'' (10, 39) (255, 0, 0) 2]"
    by (simp add: display_array_def panel_fault_marks_def fault_marks_def label_8134
        inside_mid_point corner1_def corner2_def ex_flags)
  show "length (arrays (frame_value single_env ex_cfg ex_frame (Raster 7) [] t)) = 6"
    by (simp add: frame_value_fields length_frame_arrays js ex_flags(1))
qed

text \<open>
  The array that line 314 reads for a panel is a fourth kind of array, shown on screen and
  never saved. Line 315 gives it two names, \<open>temp\<close> and \<open>temp2\<close>, so on it the panel outline and
  the module outlines are followed by the fault marks of the same panel.
\<close>

lemma temp_and_temp2_one_array:
  "panel_loop ex_frame (Raster 7) [[0, 0, 100, 100]] [[10, 10, 20, 20]] [[40, 40, 60, 60]] [833 / 1024]
     0 [0] [\<lparr>base = Raster 7, ops = []\<rparr>] =
     [\<lparr>base = Raster 7,
       ops = [Rectangle (0, 0) (100, 100) (0, 0, 255) (- 1), Rectangle (40, 40) (60, 60) (255, 255, 0) 5,
              PutText ''81.34%'' (10, 39) (255, 0, 0) 2]\<rparr>,
      \<lparr>base = Raster 7,
       ops = [Rectangle (0, 0) (100, 100) (0, 255, 0) 5, Rectangle (10, 10) (20, 20) (255, 0, 0) 2,
              Rectangle (0, 0) (100, 100) (0, 0, 255) (- 1), Rectangle (40, 40) (60, 60) (255, 255, 0) 5,
              PutText ''81.34%'' (10, 39) (255, 0, 0) 2]\<rparr>] \<and>
   length (arrays (projr (run_frame single_env ex_cfg ex_frame ex_tm []))) = 6 \<and>
   img_detection (projr (run_frame single_env ex_cfg ex_frame ex_tm [])) = 4 \<and>
   ops (arrays (projr (run_frame single_env ex_cfg ex_frame ex_tm [])) ! 5) =
     [Rectangle (0, 0) (100, 100) (0, 255, 0) 5, Rectangle (10, 10) (20, 20) (255, 0, 0) 2,
      Rectangle (0, 0) (100, 100) (0, 0, 255) (- 1), Rectangle (40, 40) (60, 60) (255, 255, 0) 5,
      PutText ''81.34%'' (10, 39) (255, 0, 0) 2]"
proof -
  have loop: "panel_loop ex_frame (Raster 7) [[0, 0, 100, 100]] [[10, 10, 20, 20]] [[40, 40, 60, 60]]
       [833 / 1024] 0 [0] [\<lparr>base = Raster 7, ops = []\<rparr>] =
     [\<lparr>base = Raster 7,
       ops = [Rectangle (0, 0) (100, 100) (0, 0, 255) (- 1), Rectangle (40, 40) (60, 60) (255, 255, 0) 5,
              PutText ''81.34%'' (10, 39) (255, 0, 0) 2]\<rparr>,
      \<lparr>base = Raster 7,
       ops = [Rectangle (0, 0) (100, 100) (0, 255, 0) 5, Rectangle (10, 10) (20, 20) (255, 0, 0) 2,
              Rectangle (0, 0) (100, 100) (0, 0, 255) (- 1), Rectangle (40, 40) (60, 60) (255, 255, 0) 5,
              PutText ''81.34%'' (10, 39) (255, 0, 0) 2]\<rparr>]"
    by (simp add: new_array_def draw_def fault_marks_def label_8134 inside_mid_point corner1_def
        corner2_def ex_flags Let_def)
  have rest: "length (arrays (projr (run_frame single_env ex_cfg ex_frame ex_tm []))) = 6 \<and>
   img_detection (projr (run_frame single_env ex_cfg ex_frame ex_tm [])) = 4 \<and>
   ops (arrays (projr (run_frame single_env ex_cfg ex_frame ex_tm [])) ! 5) =
     [Rectangle (0, 0) (100, 100) (0, 255, 0) 5, Rectangle (10, 10) (20, 20) (255, 0, 0) 2,
      Rectangle (0, 0) (100, 100) (0, 0, 255) (- 1), Rectangle (40, 40) (60, 60) (255, 255, 0) 5,
      PutText ''81.34%'' (10, 39) (255, 0, 0) 2]"
    by (simp add: single_result single_display frame_value_fields(10) ex_flags(1))
  show ?thesis
    using loop rest by (rule conjI)
qed

theorem saved_images_are_separate_arrays_witness:
  "imread single_env (path ex_frame) = Some (Raster 7) \<and>
   im1 (projr (run_frame single_env ex_cfg ex_frame ex_tm [])) = 0 \<and>
   im0 (projr (run_frame single_env ex_cfg ex_frame ex_tm [])) = 2 \<and>
   img_detection (projr (run_frame single_env ex_cfg ex_frame ex_tm [])) = 4 \<and>
   panel_image (projr (run_frame single_env ex_cfg ex_frame ex_tm [])) =
     \<lparr>base = Raster 7, ops = [BoxLabel [0, 0, 100, 100] (9 / 10) 0]\<rparr> \<and>
   module_image (projr (run_frame single_env ex_cfg ex_frame ex_tm [])) =
     \<lparr>base = Raster 7, ops = [BoxLabel [10, 10, 20, 20] (7 / 8) 0]\<rparr> \<and>
   base (anomaly_image (projr (run_frame single_env ex_cfg ex_frame ex_tm []))) = Raster 7 \<and>
   draw 0 (BoxLabel [0, 0, 100, 100] (9 / 10) 0)
     [\<lparr>base = Raster 7, ops = []\<rparr>, \<lparr>base = Raster 7, ops = []\<rparr>] ! 1 = \<lparr>base = Raster 7, ops = []\<rparr>"
proof -
  have h: "imread single_env (path ex_frame) = Some (Raster 7)"
    by (simp add: single_env_def ex_env_def ex_frame_def)
  from saved_images_are_separate_arrays [OF h, of ex_cfg ex_tm "[]"]
  obtain res where run: "run_frame single_env ex_cfg ex_frame ex_tm [] = Inr res"
    and p: "panel_image res = \<lparr>base = im0s ex_frame, ops = labels_of ex_cfg (rev (panel_rows single_env ex_cfg ex_frame))\<rparr>"
    and m: "module_image res = \<lparr>base = im0s ex_frame, ops = labels_of ex_cfg (rev (module_rows single_env ex_cfg ex_frame))\<rparr>"
    and a: "anomaly_image res =
             \<lparr>base = Raster 7,
              ops = anomaly_marks ex_frame (pred_full_solar_modules res) (pred_fault_solar_modules res)
                      (prob_fault_solar_modules res) [0..<length (pred_full_solar_modules res)]\<rparr>"
    and frame: "\<And>a b d s. a \<noteq> b \<Longrightarrow> draw a d s ! b = s ! b"
    by blast
  have res: "res = frame_value single_env ex_cfg ex_frame (Raster 7) [] (frame_timing ex_frame ex_tm)"
    using run by (simp add: single_result)
  have i: "im1 res = 0" "im0 res = 2" "img_detection res = 4"
    by (simp_all add: res frame_value_fields ex_flags)
  have p': "panel_image res = \<lparr>base = Raster 7, ops = [BoxLabel [0, 0, 100, 100] (9 / 10) 0]\<rparr>"
    using p by (simp add: single_rows ex_flags labels_of_def)
  have m': "module_image res = \<lparr>base = Raster 7, ops = [BoxLabel [10, 10, 20, 20] (7 / 8) 0]\<rparr>"
    using m by (simp add: single_rows ex_flags labels_of_def)
  have a': "base (anomaly_image res) = Raster 7"
    using a by simp
  have d: "draw 0 (BoxLabel [0, 0, 100, 100] (9 / 10) 0)
     [\<lparr>base = Raster 7, ops = []\<rparr>, \<lparr>base = Raster 7, ops = []\<rparr>] ! 1 = \<lparr>base = Raster 7, ops = []\<rparr>"
    using frame [of 0 1] by simp
  show ?thesis
    unfolding run sum.sel using h i p' m' a' d by blast
qed

section \<open>Thresholds and the repeated module call\<close>

lemma rows_ignore_thresholds:
  "fault_rows e (cfg\<lparr>conf_thres := c, iou_thres := u\<rparr>) fr = fault_rows e cfg fr"
  "module_rows e (cfg\<lparr>conf_thres := c, iou_thres := u\<rparr>) fr = module_rows e cfg fr"
  by (simp_all add: fault_rows_def module_rows_def)

lemma flags_ignore_thresholds:
  "labels_of (cfg\<lparr>conf_thres := c, iou_thres := u\<rparr>) rs = labels_of cfg rs"
  "save_crop (cfg\<lparr>conf_thres := c, iou_thres := u\<rparr>) = save_crop cfg"
  by (simp_all add: labels_of_def draws_def save_img_def)

lemma module_image_frame_value:
  "module_image (frame_value e cfg fr r fs t) =
     \<lparr>base = im0s fr, ops = labels_of cfg (rev (module_rows e cfg fr))\<rparr>"
  by (simp add: module_image_def frame_value_fields frame_arrays_nth)

lemma run_frame_unfold:
  "run_frame e cfg fr tm fs =
     (case imread e (path fr) of
        None \<Rightarrow> Inl AttributeError
      | Some r \<Rightarrow> Inr (frame_value e cfg fr r fs (frame_timing fr tm)))"
  by (simp add: run_frame_None run_frame_Some split: option.split)

text \<open>
  C9. Two calls of \<open>run\<close> that differ only in \<open>conf_thres\<close> and \<open>iou_thres\<close> give, frame by
  frame and whatever the panel pass has left in the files and the timers, the same fault pass
  and the same module pass: lines 186 and 251 call
  \<open>non_max_suppression\<close> with the constants \<open>0.01, 0.01, None, False\<close>, and only line 116, the
  panel pass, passes the caller's thresholds. The fault list, its confidences, the module list
  and the module image of the frame are the same in both runs.
\<close>

theorem fault_and_module_passes_ignore_caller_thresholds:
  "fst (fault_inference e (cfg\<lparr>conf_thres := c, iou_thres := u\<rparr>) fr tm') =
     fst (fault_inference e cfg fr tm) \<and>
   fst (single_inference e (cfg\<lparr>conf_thres := c, iou_thres := u\<rparr>) fr tm') =
     fst (single_inference e cfg fr tm) \<and>
   fst (fault_inference e cfg fr tm) =
     non_max_suppression e (model_fault e (im fr) (augment cfg) (visualize cfg))
       (1 / 100) (1 / 100) None False (max_det cfg) \<and>
   fst (single_inference e cfg fr tm) =
     non_max_suppression e (model_single e (im fr) (augment cfg) (visualize cfg))
       (1 / 100) (1 / 100) None False (max_det cfg) \<and>
   fst (panel_inference e (cfg\<lparr>conf_thres := c, iou_thres := u\<rparr>) fr tm) =
     non_max_suppression e (model e (im fr) (augment cfg) (visualize cfg))
       c u (classes cfg) (agnostic_nms cfg) (max_det cfg) \<and>
   map_sum id pred_fault_solar_modules (run_frame e (cfg\<lparr>conf_thres := c, iou_thres := u\<rparr>) fr tm' fs') =
     map_sum id pred_fault_solar_modules (run_frame e cfg fr tm fs) \<and>
   map_sum id prob_fault_solar_modules (run_frame e (cfg\<lparr>conf_thres := c, iou_thres := u\<rparr>) fr tm' fs') =
     map_sum id prob_fault_solar_modules (run_frame e cfg fr tm fs) \<and>
   map_sum id pred_single_solar_modules (run_frame e (cfg\<lparr>conf_thres := c, iou_thres := u\<rparr>) fr tm' fs') =
     map_sum id pred_single_solar_modules (run_frame e cfg fr tm fs) \<and>
   map_sum id module_image (run_frame e (cfg\<lparr>conf_thres := c, iou_thres := u\<rparr>) fr tm' fs') =
     map_sum id module_image (run_frame e cfg fr tm fs)"
proof -
  let ?cfg = "cfg\<lparr>conf_thres := c, iou_thres := u\<rparr>"
  have inf: "fst (fault_inference e ?cfg fr tm') = fst (fault_inference e cfg fr tm)"
    "fst (single_inference e ?cfg fr tm') = fst (single_inference e cfg fr tm)"
    by (simp_all add: fault_inference_eq single_inference_eq)
  have nms: "fst (fault_inference e cfg fr tm) =
     non_max_suppression e (model_fault e (im fr) (augment cfg) (visualize cfg))
       (1 / 100) (1 / 100) None False (max_det cfg)"
    "fst (single_inference e cfg fr tm) =
     non_max_suppression e (model_single e (im fr) (augment cfg) (visualize cfg))
       (1 / 100) (1 / 100) None False (max_det cfg)"
    "fst (panel_inference e ?cfg fr tm) =
     non_max_suppression e (model e (im fr) (augment cfg) (visualize cfg))
       c u (classes cfg) (agnostic_nms cfg) (max_det cfg)"
    by (simp_all add: fault_inference_eq single_inference_eq panel_inference_eq)
  have frame: "map_sum id pred_fault_solar_modules (run_frame e ?cfg fr tm' fs') =
       map_sum id pred_fault_solar_modules (run_frame e cfg fr tm fs)"
    "map_sum id prob_fault_solar_modules (run_frame e ?cfg fr tm' fs') =
       map_sum id prob_fault_solar_modules (run_frame e cfg fr tm fs)"
    "map_sum id pred_single_solar_modules (run_frame e ?cfg fr tm' fs') =
       map_sum id pred_single_solar_modules (run_frame e cfg fr tm fs)"
    "map_sum id module_image (run_frame e ?cfg fr tm' fs') =
       map_sum id module_image (run_frame e cfg fr tm fs)"
    by (simp_all add: run_frame_unfold module_image_frame_value frame_value_fields
        rows_ignore_thresholds flags_ignore_thresholds split: option.split)
  show ?thesis
    using inf nms frame by blast
qed

lemma written_frame_value:
  "written (frame_value e cfg fr r fs t) = written (frame_value e cfg fr r fs t')"
  by (simp add: frame_value_def)

lemma seen_frame_timing:
  "seen (frame_timing fr tm) = seen tm + 3" "seen (frame_timing_once fr tm) = seen tm + 3"
  by (simp_all add: frame_timing_def frame_timing_once_def)

lemma run_frames_agree:
  "seen tm = seen tm' \<Longrightarrow>
   map_sum id (\<lambda>(t, f). (seen t, f)) (run_frames run_frame_once e cfg frs tm' fs) =
   map_sum id (\<lambda>(t, f). (seen t, f)) (run_frames run_frame e cfg frs tm fs)"
proof (induction frs arbitrary: tm tm' fs)
  case Nil
  then show ?case by simp
next
  case (Cons fr frs)
  show ?case
  proof (cases "imread e (path fr)")
    case None
    then show ?thesis
      by (simp add: run_frame_None run_frame_once_None)
  next
    case (Some r)
    have s: "seen (frame_timing fr tm) = seen (frame_timing_once fr tm')"
      using Cons.prems by (simp add: seen_frame_timing)
    have w: "written (frame_value e cfg fr r fs (frame_timing_once fr tm')) =
             written (frame_value e cfg fr r fs (frame_timing fr tm))"
      by (rule written_frame_value)
    show ?thesis
      using Cons.IH [OF s, of "written (frame_value e cfg fr r fs (frame_timing fr tm))"]
      by (simp add: run_frame_Some [OF Some] run_frame_once_Some [OF Some] frame_value_fields w)
  qed
qed

text \<open>
  C10. Lines 242 and 246 call \<open>model_single\<close> twice with the same arguments and the second
  result replaces the first before it is read. The pipeline without the first call gives the
  same prediction to the non-max suppression, the same frame result (lists, arrays, files) up
  to the timing accumulators, and the same return value of \<open>run\<close>.
\<close>

theorem first_module_call_is_redundant:
  "fst (single_inference_once e cfg fr tm) = fst (single_inference e cfg fr tm) \<and>
   map_sum id (\<lambda>res. res\<lparr>elapsed := tm\<rparr>) (run_frame_once e cfg fr tm fs) =
     map_sum id (\<lambda>res. res\<lparr>elapsed := tm\<rparr>) (run_frame e cfg fr tm fs) \<and>
   run_once e cfg existing dataset = run e cfg existing dataset"
proof -
  have a: "fst (single_inference_once e cfg fr tm) = fst (single_inference e cfg fr tm)"
    by (simp add: single_inference_once_eq single_inference_eq)
  have b: "map_sum id (\<lambda>res. res\<lparr>elapsed := tm\<rparr>) (run_frame_once e cfg fr tm fs) =
     map_sum id (\<lambda>res. res\<lparr>elapsed := tm\<rparr>) (run_frame e cfg fr tm fs)"
  proof (cases "imread e (path fr)")
    case None
    then show ?thesis by (simp add: run_frame_None run_frame_once_None)
  next
    case (Some r)
    then show ?thesis
      by (simp add: run_frame_Some run_frame_once_Some frame_value_def)
  qed
  let ?z = "\<lparr>dt0 = 0, dt1 = 0, dt2 = 0, seen = 0\<rparr>"
  have "map_sum id (\<lambda>(t, f). (seen t, f)) (run_frames run_frame_once e cfg dataset ?z existing) =
        map_sum id (\<lambda>(t, f). (seen t, f)) (run_frames run_frame e cfg dataset ?z existing)"
    by (rule run_frames_agree) simp
  then have c: "run_once e cfg existing dataset = run e cfg existing dataset"
    unfolding run_once_def run_def run_with_def
    by (cases "run_frames run_frame_once e cfg dataset ?z existing";
        cases "run_frames run_frame e cfg dataset ?z existing") auto
  show ?thesis
    using a b c by blast
qed

section \<open>A panel loop stopped by the key\<close>








end
